theory Spec2Isabelle
  imports Complex_Main "HOL-Library.Word"
begin

section \<open>Floating-point values of the exchange buffer\<close>

text \<open>
  The source keeps the exchange buffer in a numpy array: \<open>np.zeros\<close> makes it an array of
  IEEE binary64 numbers, and \<open>call_discon\<close> replaces it by its \<open>astype(np.float32)\<close> copy.
  A value is modelled by the number it denotes: a finite value by a real number, the two
  infinities and NaN by constructors of their own. The two zeros of IEEE arithmetic compare
  equal and are one value here. Rounding is to nearest, ties to even, as numpy and Python do.
\<close>

datatype fval = Finite real | PInf | NInf | NaN

fun bit_length :: "nat \<Rightarrow> nat" where
  "bit_length n = (if n = 0 then 0 else Suc (bit_length (n div 2)))"

declare bit_length.simps [simp del]

definition pow2 :: "int \<Rightarrow> real" where
  "pow2 k = (if 0 \<le> k then 2 ^ nat k else 1 / 2 ^ nat (- k))"

text \<open>
  The binary exponent of a positive number: the \<open>e\<close> with \<open>2^e \<le> x < 2^(e+1)\<close>, read off
  the bit length of the integer part of \<open>x\<close> (or of \<open>1/x\<close> below one).
\<close>

definition ilog2 :: "real \<Rightarrow> int" where
  "ilog2 x =
     (if 1 \<le> x then int (bit_length (nat \<lfloor>x\<rfloor>)) - 1
      else - int (bit_length (nat (\<lceil>1 / x\<rceil> - 1))))"

definition round_half_even :: "real \<Rightarrow> int" where
  "round_half_even q =
     (let f = \<lfloor>q\<rfloor>; r = q - of_int f
      in if r < 1 / 2 then f else if 1 / 2 < r then f + 1
         else if even f then f else f + 1)"

text \<open>
  Rounding of a number to the binary format with \<open>p\<close> significant bits and exponents
  from \<open>emin\<close> to \<open>emax\<close>: below \<open>2^emin\<close> the spacing stays that of the smallest
  normal binade (subnormal numbers), and a result of \<open>2^(emax+1)\<close> or more is an infinity.
\<close>

definition round_binary :: "nat \<Rightarrow> int \<Rightarrow> int \<Rightarrow> real \<Rightarrow> fval" where
  "round_binary p emin emax x =
     (if x = 0 then Finite 0
      else
        let e = max (ilog2 \<bar>x\<bar>) emin;
            ulp = pow2 (e - int p + 1);
            y = of_int (round_half_even (\<bar>x\<bar> / ulp)) * ulp
        in if pow2 (emax + 1) \<le> y then (if 0 < x then PInf else NInf)
           else Finite (sgn x * y))"

definition round_float64 :: "real \<Rightarrow> fval" where
  "round_float64 = round_binary 53 (- 1022) 1023"

definition round_float32 :: "real \<Rightarrow> fval" where
  "round_float32 = round_binary 24 (- 126) 127"

text \<open>\<open>astype(np.float32)\<close> on one element, and the store of a value into a float32 array.\<close>

fun to_float32 :: "fval \<Rightarrow> fval" where
  "to_float32 (Finite x) = round_float32 x"
| "to_float32 v = v"

text \<open>The conversion of a Python \<open>int\<close> stored into a float array.\<close>

definition float_of_int :: "int \<Rightarrow> fval" where
  "float_of_int n = round_float64 (of_int n)"

text \<open>The product \<open>*\<close> of two Python floats (binary64).\<close>

fun fsign_pos :: "fval \<Rightarrow> bool" where
  "fsign_pos (Finite x) = (0 < x)"
| "fsign_pos PInf = True"
| "fsign_pos NInf = False"
| "fsign_pos NaN = False"

fun fmul :: "fval \<Rightarrow> fval \<Rightarrow> fval" where
  "fmul NaN _ = NaN"
| "fmul _ NaN = NaN"
| "fmul (Finite x) (Finite y) = round_float64 (x * y)"
| "fmul (Finite x) w = (if x = 0 then NaN else if (0 < x) = fsign_pos w then PInf else NInf)"
| "fmul v (Finite y) = (if y = 0 then NaN else if fsign_pos v = (0 < y) then PInf else NInf)"
| "fmul v w = (if fsign_pos v = fsign_pos w then PInf else NInf)"

text \<open>
  The module constants. \<open>np.pi\<close> is the binary64 number nearest to the circle constant;
  in \<open>2.0*(np.pi)/60.0\<close> the product is exact (a doubling) and the quotient is rounded;
  \<open>np.deg2rad(1)\<close> is the rounded \<open>np.pi / 180\<close>.
\<close>

definition np_pi :: real where
  "np_pi = 884279719003555 / 281474976710656"

definition deg2rad :: fval where
  "deg2rad = round_float64 (np_pi / 180)"

definition rpm2RadSec :: fval where
  "rpm2RadSec = round_float64 (2 * np_pi / 60)"

section \<open>numpy arrays, dictionaries and errors\<close>

text \<open>
  An array carries its element type: a value stored into a float32 array is converted to
  float32, and \<open>astype(np.float32)\<close> of an array that is float32 already is a plain copy.
  Indexing out of range raises \<open>IndexError\<close>, a missing dictionary key \<open>KeyError\<close>.
\<close>

datatype error = KeyError string | IndexError | AttributeError | OSError string | ReadError string

datatype np_dtype = float64 | float32

record ndarray =
  dtype :: np_dtype
  elems :: "fval list"

definition np_zeros :: "nat \<Rightarrow> ndarray" where
  "np_zeros n = \<lparr>dtype = float64, elems = replicate n (Finite 0)\<rparr>"

fun cast :: "np_dtype \<Rightarrow> fval \<Rightarrow> fval" where
  "cast float64 v = v"
| "cast float32 v = to_float32 v"

definition astype_float32 :: "ndarray \<Rightarrow> ndarray" where
  "astype_float32 a =
     \<lparr>dtype = float32,
      elems = (case dtype a of float32 \<Rightarrow> elems a | float64 \<Rightarrow> map to_float32 (elems a))\<rparr>"

definition setitem :: "ndarray \<Rightarrow> nat \<Rightarrow> fval \<Rightarrow> error + ndarray" where
  "setitem a i v =
     (if i < length (elems a) then Inr (a\<lparr>elems := (elems a)[i := cast (dtype a) v]\<rparr>)
      else Inl IndexError)"

definition getitem :: "ndarray \<Rightarrow> nat \<Rightarrow> error + fval" where
  "getitem a i = (if i < length (elems a) then Inr (elems a ! i) else Inl IndexError)"

type_synonym pydict = "string \<rightharpoonup> fval"

definition dict_get :: "pydict \<Rightarrow> string \<Rightarrow> error + fval" where
  "dict_get d k = (case d k of None \<Rightarrow> Inl (KeyError k) | Some v \<Rightarrow> Inr v)"

text \<open>The product of two expressions, the left one evaluated first.\<close>

definition emul :: "error + fval \<Rightarrow> error + fval \<Rightarrow> error + fval" where
  "emul a b =
     (case a of Inl e \<Rightarrow> Inl e
      | Inr x \<Rightarrow> (case b of Inl e \<Rightarrow> Inl e | Inr y \<Rightarrow> Inr (fmul x y)))"

section \<open>The foreign routine\<close>

text \<open>
  \<open>DISCON\<close> receives a pointer to the float32 copy of the buffer, a pointer to the status
  flag, the name of the parameter file and the two character buffers, and changes the
  array, the flag and the character buffers in place. Its effect is modelled by what it
  leaves behind: for each slot it wrote the (float32) value it left there, the new flag
  and the new contents of the two character buffers. It cannot change the length of the
  array; a store outside the array is outside this model.
\<close>

record discon_effect =
  swap_out :: "nat \<rightharpoonup> fval"
  fail_out :: "32 word"
  outname_out :: string
  msg_out :: string

type_synonym foreign =
  "fval list \<Rightarrow> 32 word \<Rightarrow> string \<Rightarrow> string \<Rightarrow> string \<Rightarrow> discon_effect"

definition store_back :: "(nat \<rightharpoonup> fval) \<Rightarrow> fval list \<Rightarrow> fval list" where
  "store_back w xs = map (\<lambda>i. case w i of None \<Rightarrow> xs ! i | Some v \<Rightarrow> v) [0..<length xs]"

section \<open>ControllerInterface\<close>

text \<open>
  The attributes of the object. \<open>nac_yawrate\<close> does not exist before the first
  \<open>call_controller\<close>. \<open>param_name\<close> is an ASCII string, on which
  \<open>encode('utf-8')\<close> is the identity and \<open>len\<close> counts bytes.
\<close>

record ControllerInterface =
  lib_name :: string
  param_name :: string
  DT :: fval
  num_blade :: int
  char_buffer :: int
  avr_size :: nat
  pitch :: fval
  torque :: fval
  nac_yawrate :: "fval option"
  discon :: foreign
  avrSWAP :: ndarray
  aviFAIL :: "32 word"
  accINFILE :: string
  avcOUTNAME :: string
  avcMSG :: string

text \<open>
  A method body is a sequence of statements on \<open>self\<close>. A statement that raises leaves
  \<open>self\<close> as the statements before it made it, and the rest is not run.
\<close>

type_synonym stmt = "ControllerInterface \<Rightarrow> error + ControllerInterface"

fun exec :: "stmt list \<Rightarrow> ControllerInterface \<Rightarrow> ControllerInterface \<times> error option" where
  "exec [] self = (self, None)"
| "exec (c # cs) self = (case c self of Inl e \<Rightarrow> (self, Some e) | Inr self' \<Rightarrow> exec cs self')"

text \<open>\<open>self.avrSWAP[i] = rhs\<close>: the right-hand side is evaluated first.\<close>

definition set_avrSWAP :: "nat \<Rightarrow> (ControllerInterface \<Rightarrow> error + fval) \<Rightarrow> stmt" where
  "set_avrSWAP i rhs self =
     (case rhs self of Inl e \<Rightarrow> Inl e
      | Inr v \<Rightarrow> (case setitem (avrSWAP self) i v of Inl e \<Rightarrow> Inl e
                  | Inr a \<Rightarrow> Inr (self\<lparr>avrSWAP := a\<rparr>)))"

subsection \<open>call_discon\<close>

text \<open>The array the foreign routine is called on: \<open>data = self.avrSWAP.astype(np.float32)\<close>.\<close>

definition discon_data :: "ControllerInterface \<Rightarrow> fval list" where
  "discon_data self = elems (astype_float32 (avrSWAP self))"

text \<open>What the foreign routine does in the call of line 109, made on the object \<open>self\<close>.\<close>

definition discon_call :: "ControllerInterface \<Rightarrow> discon_effect" where
  "discon_call self =
     discon self (discon_data self) (aviFAIL self) (accINFILE self) (avcOUTNAME self) (avcMSG self)"

definition call_discon :: "ControllerInterface \<Rightarrow> ControllerInterface" where
  "call_discon self =
     (let data = astype_float32 (avrSWAP self);
          r = discon self (elems data) (aviFAIL self) (accINFILE self) (avcOUTNAME self)
                (avcMSG self)
      in self\<lparr>avrSWAP := data\<lparr>elems := store_back (swap_out r) (elems data)\<rparr>,
              aviFAIL := fail_out r, avcOUTNAME := outname_out r, avcMSG := msg_out r\<rparr>)"

subsection \<open>The constructor\<close>

text \<open>
  \<open>utilities.FileProcessing().read_DISCON\<close> and \<open>cdll.LoadLibrary\<close> are not part of this
  module: they are parameters, each returning its result or the error it raises. The
  attributes of lines 86 to 89 are set with the others; no statement between reads them,
  and an exception in the constructor discards the object. The buffer is
  \<open>np.zeros(self.avr_size)\<close>, with \<open>avr_size\<close> the constant 500 of line 58, and \<open>DT\<close> is
  the float64 number the literal \<open>0.1\<close> denotes.
\<close>

definition init_avrSWAP :: "pydict \<Rightarrow> fval \<Rightarrow> fval \<Rightarrow> fval \<Rightarrow> fval \<Rightarrow> stmt list" where
  "init_avrSWAP discon_params wind_speed_init rotor_rpm_init yaw_init yaw_error_init =
     [set_avrSWAP 2 (\<lambda>self. Inr (DT self)),
      set_avrSWAP 60 (\<lambda>self. Inr (float_of_int (num_blade self))),
      set_avrSWAP 19 (\<lambda>self. emul (Inr (fmul rotor_rpm_init rpm2RadSec))
                                (dict_get discon_params ''WE_GearboxRatio'')),
      set_avrSWAP 20 (\<lambda>self. Inr (fmul rotor_rpm_init rpm2RadSec)),
      set_avrSWAP 23 (\<lambda>self. Inr yaw_error_init),
      set_avrSWAP 26 (\<lambda>self. Inr wind_speed_init),
      set_avrSWAP 36 (\<lambda>self. Inr (fmul yaw_init deg2rad)),
      set_avrSWAP 0 (\<lambda>self. Inr (float_of_int 0)),
      set_avrSWAP 48 (\<lambda>self. Inr (float_of_int (char_buffer self))),
      set_avrSWAP 49 (\<lambda>self. Inr (float_of_int (int (length (param_name self))))),
      set_avrSWAP 50 (\<lambda>self. Inr (float_of_int (char_buffer self))),
      set_avrSWAP 51 (\<lambda>self. Inr (float_of_int (char_buffer self)))]"

text \<open>Lines 47 to 91: the object as it is when \<open>call_discon\<close> is first called.\<close>

definition init_setup ::
  "(string \<Rightarrow> error + pydict) \<Rightarrow> (string \<Rightarrow> error + foreign) \<Rightarrow> string \<Rightarrow> string \<Rightarrow>
   fval \<Rightarrow> fval \<Rightarrow> fval \<Rightarrow> fval \<Rightarrow> error + ControllerInterface" where
  "init_setup read_DISCON LoadLibrary lib param_filename wind_speed_init rotor_rpm_init
       yaw_init yaw_error_init =
     (case read_DISCON param_filename of Inl e \<Rightarrow> Inl e
      | Inr discon_params \<Rightarrow>
     (case LoadLibrary lib of Inl e \<Rightarrow> Inl e
      | Inr dll \<Rightarrow>
     (case exec (init_avrSWAP discon_params wind_speed_init rotor_rpm_init yaw_init
                   yaw_error_init)
             \<lparr>lib_name = lib, param_name = param_filename,
              DT = round_float64 (1 / 10), num_blade = 3, char_buffer = 500, avr_size = 500,
              pitch = Finite 0, torque = Finite 0, nac_yawrate = None,
              discon = dll, avrSWAP = np_zeros 500,
              aviFAIL = 0, accINFILE = param_filename,
              avcOUTNAME = replicate 1000 (CHR 0x00), avcMSG = replicate 1000 (CHR 0x00)\<rparr>
      of (self, Some e) \<Rightarrow> Inl e
       | (self, None) \<Rightarrow> Inr self)))"

text \<open>Lines 92 to 96: the first call, then the marker for every later call.\<close>

definition init ::
  "(string \<Rightarrow> error + pydict) \<Rightarrow> (string \<Rightarrow> error + foreign) \<Rightarrow> string \<Rightarrow> string \<Rightarrow>
   fval \<Rightarrow> fval \<Rightarrow> fval \<Rightarrow> fval \<Rightarrow> error + ControllerInterface" where
  "init read_DISCON LoadLibrary lib param_filename wind_speed_init rotor_rpm_init
       yaw_init yaw_error_init =
     (case init_setup read_DISCON LoadLibrary lib param_filename wind_speed_init
             rotor_rpm_init yaw_init yaw_error_init of
        Inl e \<Rightarrow> Inl e
      | Inr self0 \<Rightarrow>
          (case exec [\<lambda>self. Inr (call_discon self),
                      set_avrSWAP 0 (\<lambda>self. Inr (float_of_int 1))] self0
           of (self, Some e) \<Rightarrow> Inl e
            | (self, None) \<Rightarrow> Inr self))"

subsection \<open>call_controller\<close>

text \<open>Lines 143 to 154, in the order of the source.\<close>

definition add_states :: "pydict \<Rightarrow> stmt list" where
  "add_states turbine_state =
     [set_avrSWAP 1 (\<lambda>self. dict_get turbine_state ''t''),
      set_avrSWAP 2 (\<lambda>self. dict_get turbine_state ''dt''),
      set_avrSWAP 3 (\<lambda>self. dict_get turbine_state ''bld_pitch''),
      set_avrSWAP 32 (\<lambda>self. dict_get turbine_state ''bld_pitch''),
      set_avrSWAP 33 (\<lambda>self. dict_get turbine_state ''bld_pitch''),
      set_avrSWAP 14 (\<lambda>self. emul (emul (dict_get turbine_state ''gen_speed'')
                                        (dict_get turbine_state ''gen_torque''))
                                  (dict_get turbine_state ''gen_eff'')),
      set_avrSWAP 22 (\<lambda>self. dict_get turbine_state ''gen_torque''),
      set_avrSWAP 19 (\<lambda>self. dict_get turbine_state ''gen_speed''),
      set_avrSWAP 20 (\<lambda>self. dict_get turbine_state ''rot_speed''),
      set_avrSWAP 26 (\<lambda>self. dict_get turbine_state ''ws''),
      set_avrSWAP 36 (\<lambda>self. dict_get turbine_state ''Yaw_fromNorth''),
      set_avrSWAP 23 (\<lambda>self. dict_get turbine_state ''Y_MeasErr'')]"

text \<open>Lines 157 to 162: the call and the three reads.\<close>

definition run_and_read :: "stmt list" where
  "run_and_read =
     [\<lambda>self. Inr (call_discon self),
      \<lambda>self. (case getitem (avrSWAP self) 41 of Inl e \<Rightarrow> Inl e
               | Inr v \<Rightarrow> Inr (self\<lparr>pitch := v\<rparr>)),
      \<lambda>self. (case getitem (avrSWAP self) 46 of Inl e \<Rightarrow> Inl e
               | Inr v \<Rightarrow> Inr (self\<lparr>torque := v\<rparr>)),
      \<lambda>self. (case getitem (avrSWAP self) 47 of Inl e \<Rightarrow> Inl e
               | Inr v \<Rightarrow> Inr (self\<lparr>nac_yawrate := Some v\<rparr>))]"

text \<open>Line 168: \<open>return self.torque, self.pitch, self.nac_yawrate\<close>.\<close>

definition return_outputs ::
  "ControllerInterface \<times> error option \<Rightarrow> ControllerInterface \<times> (error + fval \<times> fval \<times> fval)" where
  "return_outputs r =
     (case r of (self, Some e) \<Rightarrow> (self, Inl e)
      | (self, None) \<Rightarrow>
          (case nac_yawrate self of None \<Rightarrow> (self, Inl AttributeError)
           | Some y \<Rightarrow> (self, Inr (torque self, pitch self, y))))"

definition call_controller ::
  "ControllerInterface \<Rightarrow> pydict \<Rightarrow> ControllerInterface \<times> (error + fval \<times> fval \<times> fval)" where
  "call_controller self turbine_state =
     return_outputs (exec (add_states turbine_state @ run_and_read) self)"

section \<open>Turbine states, drivers and stub libraries\<close>

text \<open>The ten fields \<open>call_controller\<close> reads from \<open>turbine_state\<close>.\<close>

definition ts_keys :: "string list" where
  "ts_keys = [''t'', ''dt'', ''bld_pitch'', ''gen_speed'', ''gen_torque'', ''gen_eff'',
              ''rot_speed'', ''ws'', ''Yaw_fromNorth'', ''Y_MeasErr'']"

definition valid_ts :: "pydict \<Rightarrow> bool" where
  "valid_ts ts = list_all (\<lambda>k. ts k \<noteq> None) ts_keys"

text \<open>The slots \<open>call_controller\<close> assigns, and those the constructor assigns.\<close>

definition input_slots :: "nat set" where
  "input_slots = {1, 2, 3, 32, 33, 14, 22, 19, 20, 26, 36, 23}"

definition init_slots :: "nat set" where
  "init_slots = {2, 60, 19, 20, 23, 26, 36, 0, 48, 49, 50, 51}"

text \<open>
  \<open>only_slots I self self'\<close>: \<open>self'\<close> is \<open>self\<close> except for the slots in \<open>I\<close> of the
  buffer; the element type and the length of the buffer are those of \<open>self\<close>.
\<close>

definition only_slots :: "nat set \<Rightarrow> ControllerInterface \<Rightarrow> ControllerInterface \<Rightarrow> bool" where
  "only_slots I self self' \<longleftrightarrow>
     self' = self\<lparr>avrSWAP := avrSWAP self'\<rparr> \<and>
     dtype (avrSWAP self') = dtype (avrSWAP self) \<and>
     length (elems (avrSWAP self')) = length (elems (avrSWAP self)) \<and>
     (\<forall>j. j \<notin> I \<longrightarrow> elems (avrSWAP self') ! j = elems (avrSWAP self) ! j)"

text \<open>
  A driver calls \<open>call_controller\<close> once per time step. \<open>advance_all\<close> is the object after
  the calls (a call that raised leaves it as it was when the exception occurred), and
  \<open>markers_seen\<close> lists the value of slot 0 in the array handed to the foreign routine,
  one entry for each call that reached the foreign routine.
\<close>

fun advance_all :: "ControllerInterface \<Rightarrow> pydict list \<Rightarrow> ControllerInterface" where
  "advance_all self [] = self"
| "advance_all self (ts # tss) = advance_all (fst (call_controller self ts)) tss"


text \<open>
  Stub libraries: one that writes nothing, one that sets the three output slots to the
  float32 constants \<open>0.1\<close>, \<open>1000.0\<close> and \<open>0.01\<close> on every call, and one that reports a
  failure through the status flag and the message buffer.
\<close>

definition stub_idle :: foreign where
  "stub_idle d f i out m =
     \<lparr>swap_out = Map.empty, fail_out = f, outname_out = out, msg_out = m\<rparr>"

definition stub_const :: foreign where
  "stub_const d f i out m =
     \<lparr>swap_out = [41 \<mapsto> round_float32 (1 / 10), 46 \<mapsto> round_float32 1000,
                  47 \<mapsto> round_float32 (1 / 100)],
      fail_out = f, outname_out = out, msg_out = m\<rparr>"

definition stub_fail :: foreign where
  "stub_fail d f i out m =
     \<lparr>swap_out = Map.empty, fail_out = - 1, outname_out = out,
      msg_out = ''ERROR'' @ replicate 995 (CHR 0x00)\<rparr>"

definition stub_read_DISCON :: "string \<Rightarrow> error + pydict" where
  "stub_read_DISCON name = Inr [''WE_GearboxRatio'' \<mapsto> Finite 97]"

definition stub_LoadLibrary :: "foreign \<Rightarrow> string \<Rightarrow> error + foreign" where
  "stub_LoadLibrary dll name = Inr dll"

text \<open>The object constructed on a stub library with the default arguments.\<close>

definition constructed :: "foreign \<Rightarrow> ControllerInterface" where
  "constructed dll =
     projr (init stub_read_DISCON (stub_LoadLibrary dll) ''libdiscon.so'' ''DISCON.IN''
              (Finite 10) (Finite 4) (Finite 0) (Finite 0))"

text \<open>The same object as it is when the constructor first calls the foreign routine.\<close>

definition setup_default :: "foreign \<Rightarrow> ControllerInterface" where
  "setup_default dll =
     projr (init_setup stub_read_DISCON (stub_LoadLibrary dll) ''libdiscon.so'' ''DISCON.IN''
              (Finite 10) (Finite 4) (Finite 0) (Finite 0))"

definition ts_example :: pydict where
  "ts_example =
     [''t'' \<mapsto> Finite 5, ''dt'' \<mapsto> Finite (1 / 8), ''bld_pitch'' \<mapsto> Finite (1 / 4),
      ''gen_speed'' \<mapsto> Finite 40, ''gen_torque'' \<mapsto> Finite 1000, ''gen_eff'' \<mapsto> Finite (1 / 2),
      ''rot_speed'' \<mapsto> Finite (1 / 2), ''ws'' \<mapsto> Finite 11, ''Yaw_fromNorth'' \<mapsto> Finite 0,
      ''Y_MeasErr'' \<mapsto> Finite 0]"

text \<open>The same record without its last field.\<close>

definition ts_missing :: pydict where
  "ts_missing = ts_example(''Y_MeasErr'' := None)"

text \<open>The record of \<open>ts_example\<close> without its first field.\<close>

definition ts_no_t :: pydict where
  "ts_no_t = ts_example(''t'' := None)"

section \<open>Rounding: small integers are exact\<close>

lemma bit_length_le: "n < 2 ^ p \<Longrightarrow> bit_length n \<le> p"
proof (induction n arbitrary: p rule: bit_length.induct)
  case (1 n)
  show ?case
  proof (cases "n = 0")
    case True
    then show ?thesis by (simp add: bit_length.simps)
  next
    case False
    with "1.prems" obtain q where p: "p = Suc q" by (cases p) auto
    with "1.prems" have "n div 2 < 2 ^ q" by auto
    with "1.IH" [OF False] have "bit_length (n div 2) \<le> q" by blast
    with False p show ?thesis by (subst bit_length.simps) simp
  qed
qed

lemma bit_length_pos: "0 < n \<Longrightarrow> 0 < bit_length n"
  by (subst bit_length.simps) simp

lemma round_half_even_of_int: "round_half_even (of_int k) = k"
  by (simp add: round_half_even_def)

lemma round_binary_of_nat:
  assumes "n < 2 ^ p" and "emin \<le> 0" and "int p \<le> emax + 1"
  shows "round_binary p emin emax (of_nat n) = Finite (of_nat n)"
proof (cases "n = 0")
  case True
  then show ?thesis by (simp add: round_binary_def)
next
  case False
  define b where "b = bit_length n"
  have b1: "1 \<le> b" using False bit_length_pos [of n] by (simp add: b_def)
  have bp: "b \<le> p" using assms(1) by (simp add: b_def bit_length_le)
  have x1: "(1::real) \<le> of_nat n" using False by simp
  have il: "ilog2 \<bar>of_nat n\<bar> = int b - 1"
    using x1 by (simp add: ilog2_def b_def)
  have e: "max (ilog2 \<bar>of_nat n :: real\<bar>) emin = int b - 1"
    using il b1 assms(2) by simp
  have ulp: "pow2 (int b - 1 - int p + 1) = 1 / 2 ^ (p - b)"
  proof (cases "b = p")
    case True
    then show ?thesis by (simp add: pow2_def)
  next
    case False
    with bp have "b < p" by simp
    then have "nat (int p - int b) = p - b" by simp
    with \<open>b < p\<close> show ?thesis by (simp add: pow2_def)
  qed
  have q: "\<bar>of_nat n :: real\<bar> / (1 / 2 ^ (p - b)) = of_int (int n * 2 ^ (p - b))"
    by simp
  have y: "of_int (round_half_even (\<bar>of_nat n :: real\<bar> / (1 / 2 ^ (p - b)))) * (1 / 2 ^ (p - b)) = (of_nat n :: real)"
    unfolding q round_half_even_of_int by simp
  have "(of_nat n :: real) < 2 ^ p" using assms(1)
    by (metis of_nat_less_iff of_nat_numeral of_nat_power)
  also have "(2::real) ^ p \<le> pow2 (emax + 1)"
    using assms(3) by (simp add: pow2_def numeral_power_le_nat_cancel_iff le_nat_iff)
  finally have nov: "\<not> pow2 (emax + 1) \<le> (of_nat n :: real)" by simp
  show ?thesis
    unfolding round_binary_def Let_def e ulp y
    using False nov by simp
qed

lemma float_of_int_exact: "n < 2 ^ 53 \<Longrightarrow> float_of_int (int n) = Finite (of_nat n)"
  using round_binary_of_nat [of n 53 "- 1022" 1023]
  by (simp add: float_of_int_def round_float64_def)

lemma round_float32_of_nat: "n < 2 ^ 24 \<Longrightarrow> round_float32 (of_nat n) = Finite (of_nat n)"
  using round_binary_of_nat [of n 24 "- 126" 127]
  by (simp add: round_float32_def)

section \<open>Rounding: the constants of the module\<close>

lemma float_of_int_0: "float_of_int 0 = Finite 0"
  by (simp add: float_of_int_def round_float64_def round_binary_def)

lemma float_of_int_1: "float_of_int 1 = Finite 1"
  using float_of_int_exact [of 1] by simp

lemma float_of_int_3: "float_of_int 3 = Finite 3"
  using float_of_int_exact [of 3] by simp

lemma float_of_int_500: "float_of_int 500 = Finite 500"
  using float_of_int_exact [of 500] by simp

lemma to_float32_0: "to_float32 (Finite 0) = Finite 0"
  by (simp add: round_float32_def round_binary_def)

lemma to_float32_1: "to_float32 (Finite 1) = Finite 1"
  using round_float32_of_nat [of 1] by simp

lemma to_float32_3: "to_float32 (Finite 3) = Finite 3"
  using round_float32_of_nat [of 3] by simp

lemma to_float32_500: "to_float32 (Finite 500) = Finite 500"
  using round_float32_of_nat [of 500] by simp

lemma float64_tenth: "round_float64 (1 / 10) = Finite (3602879701896397 / 36028797018963968)"
proof -
  have "ilog2 (1 / 10) = - 4"
    by (simp add: ilog2_def bit_length.simps)
  then show ?thesis
    unfolding round_float64_def round_binary_def Let_def
    by (simp add: pow2_def round_half_even_def Let_def)
qed

lemma float32_of_float64_tenth:
  "round_float32 (3602879701896397 / 36028797018963968) = Finite (13421773 / 134217728)"
proof -
  have "ilog2 (3602879701896397 / 36028797018963968) = - 4"
    by (simp add: ilog2_def bit_length.simps)
  then show ?thesis
    unfolding round_float32_def round_binary_def Let_def
    by (simp add: pow2_def round_half_even_def Let_def)
qed

lemma rpm2RadSec_value: "rpm2RadSec = Finite (7545853602163669 / 72057594037927936)"
proof -
  have "ilog2 (884279719003555 / 8444249301319680) = - 4"
    by (simp add: ilog2_def bit_length.simps)
  then show ?thesis
    unfolding rpm2RadSec_def np_pi_def round_float64_def round_binary_def Let_def
    by (simp add: pow2_def round_half_even_def Let_def)
qed

lemma rotor_speed_default:
  "fmul (Finite 4) rpm2RadSec = Finite (7545853602163669 / 18014398509481984)"
proof -
  have "ilog2 (7545853602163669 / 18014398509481984) = - 2"
    by (simp add: ilog2_def bit_length.simps)
  then show ?thesis
    unfolding rpm2RadSec_value fmul.simps round_float64_def round_binary_def Let_def
    by (simp add: pow2_def round_half_even_def Let_def)
qed

lemma rotor_speed_default32:
  "round_float32 (7545853602163669 / 18014398509481984) = Finite (878453 / 2097152)"
proof -
  have "ilog2 (7545853602163669 / 18014398509481984) = - 2"
    by (simp add: ilog2_def bit_length.simps)
  then show ?thesis
    unfolding round_float32_def round_binary_def Let_def
    by (simp add: pow2_def round_half_even_def Let_def)
qed

section \<open>Statements, the foreign call and the constructor\<close>

lemma exec_append:
  "exec (cs @ ds) self =
     (case exec cs self of (s, None) \<Rightarrow> exec ds s | (s, Some e) \<Rightarrow> (s, Some e))"
  by (induction cs arbitrary: self) (auto split: sum.splits)

lemma length_store_back [simp]: "length (store_back w xs) = length xs"
  by (simp add: store_back_def)

lemma nth_store_back:
  "i < length xs \<Longrightarrow> store_back w xs ! i = (case w i of None \<Rightarrow> xs ! i | Some v \<Rightarrow> v)"
  by (simp add: store_back_def split: option.splits)

lemma length_discon_data [simp]: "length (discon_data self) = length (elems (avrSWAP self))"
  by (cases "dtype (avrSWAP self)") (simp_all add: discon_data_def astype_float32_def)

lemma nth_discon_data:
  "i < length (elems (avrSWAP self)) \<Longrightarrow>
   discon_data self ! i =
     (case dtype (avrSWAP self) of float32 \<Rightarrow> elems (avrSWAP self) ! i
      | float64 \<Rightarrow> to_float32 (elems (avrSWAP self) ! i))"
  by (cases "dtype (avrSWAP self)") (simp_all add: discon_data_def astype_float32_def)

lemma discon_data_float32:
  "dtype (avrSWAP self) = float32 \<Longrightarrow> discon_data self = elems (avrSWAP self)"
  by (simp add: discon_data_def astype_float32_def)

lemma call_discon_eq:
  "call_discon self =
     self\<lparr>avrSWAP := \<lparr>dtype = float32,
                        elems = store_back (swap_out (discon_call self)) (discon_data self)\<rparr>,
          aviFAIL := fail_out (discon_call self),
          avcOUTNAME := outname_out (discon_call self),
          avcMSG := msg_out (discon_call self)\<rparr>"
  by (simp add: call_discon_def discon_call_def discon_data_def astype_float32_def Let_def)

lemma length_call_discon [simp]:
  "length (elems (avrSWAP (call_discon self))) = length (elems (avrSWAP self))"
  by (simp add: call_discon_eq)

lemma dtype_call_discon [simp]: "dtype (avrSWAP (call_discon self)) = float32"
  by (simp add: call_discon_eq)

lemma discon_call_discon [simp]: "discon (call_discon self) = discon self"
  by (simp add: call_discon_eq)

lemma nth_call_discon:
  "i < length (elems (avrSWAP self)) \<Longrightarrow>
   elems (avrSWAP (call_discon self)) ! i =
     (case swap_out (discon_call self) i of None \<Rightarrow> discon_data self ! i | Some v \<Rightarrow> v)"
  by (simp add: call_discon_eq nth_store_back)

lemma exec_add_states:
  assumes "ts ''t'' = Some t" "ts ''dt'' = Some dt" "ts ''bld_pitch'' = Some bp"
    "ts ''gen_speed'' = Some gs" "ts ''gen_torque'' = Some gt" "ts ''gen_eff'' = Some ge"
    "ts ''rot_speed'' = Some rs" "ts ''ws'' = Some ws" "ts ''Yaw_fromNorth'' = Some yfn"
    "ts ''Y_MeasErr'' = Some yme"
    and "length (elems (avrSWAP self)) = 500"
    and "c = cast (dtype (avrSWAP self))"
  shows "exec (add_states ts) self =
    (self\<lparr>avrSWAP := (avrSWAP self)\<lparr>elems :=
       (elems (avrSWAP self))[1 := c t, 2 := c dt, 3 := c bp, 32 := c bp, 33 := c bp,
          14 := c (fmul (fmul gs gt) ge), 22 := c gt, 19 := c gs, 20 := c rs, 26 := c ws,
          36 := c yfn, 23 := c yme]\<rparr>\<rparr>, None)"
  using assms
  by (simp add: add_states_def set_avrSWAP_def setitem_def dict_get_def emul_def)

lemma valid_tsD:
  assumes "valid_ts ts"
  obtains t dt bp gs gt ge rs ws yfn yme where
    "ts ''t'' = Some t" "ts ''dt'' = Some dt" "ts ''bld_pitch'' = Some bp"
    "ts ''gen_speed'' = Some gs" "ts ''gen_torque'' = Some gt" "ts ''gen_eff'' = Some ge"
    "ts ''rot_speed'' = Some rs" "ts ''ws'' = Some ws" "ts ''Yaw_fromNorth'' = Some yfn"
    "ts ''Y_MeasErr'' = Some yme"
  using assms unfolding valid_ts_def ts_keys_def by auto

lemma exec_run_and_read:
  assumes "length (elems (avrSWAP self)) = 500"
  shows "exec run_and_read self =
    ((call_discon self)\<lparr>pitch := elems (avrSWAP (call_discon self)) ! 41,
        torque := elems (avrSWAP (call_discon self)) ! 46,
        nac_yawrate := Some (elems (avrSWAP (call_discon self)) ! 47)\<rparr>, None)"
  using assms by (simp add: run_and_read_def getitem_def)

lemma init_setup_ok:
  assumes "read_DISCON p = Inr dp" and "LoadLibrary lib = Inr dll"
    and "dp ''WE_GearboxRatio'' = Some gb"
  shows "init_setup read_DISCON LoadLibrary lib p ws rpm yaw yerr =
    Inr \<lparr>lib_name = lib, param_name = p,
         DT = round_float64 (1 / 10), num_blade = 3, char_buffer = 500, avr_size = 500,
         pitch = Finite 0, torque = Finite 0, nac_yawrate = None,
         discon = dll,
         avrSWAP = \<lparr>dtype = float64, elems = (replicate 500 (Finite 0))
           [2 := round_float64 (1 / 10), 60 := Finite 3,
            19 := fmul (fmul rpm rpm2RadSec) gb, 20 := fmul rpm rpm2RadSec,
            23 := yerr, 26 := ws, 36 := fmul yaw deg2rad, 0 := Finite 0,
            48 := Finite 500, 49 := float_of_int (int (length p)),
            50 := Finite 500, 51 := Finite 500]\<rparr>,
         aviFAIL = 0, accINFILE = p,
         avcOUTNAME = replicate 1000 (CHR 0x00), avcMSG = replicate 1000 (CHR 0x00)\<rparr>"
  using assms
  by (simp add: init_setup_def init_avrSWAP_def set_avrSWAP_def setitem_def dict_get_def
      emul_def np_zeros_def float_of_int_0 float_of_int_3 float_of_int_500)

lemma init_setupE:
  assumes "init_setup rd ld lib p ws rpm yaw yerr = Inr s0"
  obtains dp dll gb where "rd p = Inr dp" "ld lib = Inr dll" "dp ''WE_GearboxRatio'' = Some gb"
proof -
  from assms obtain dp where dp: "rd p = Inr dp"
    by (cases "rd p") (simp_all add: init_setup_def)
  from assms dp obtain dll where dll: "ld lib = Inr dll"
    by (cases "ld lib") (simp_all add: init_setup_def)
  have "dp ''WE_GearboxRatio'' \<noteq> None"
  proof
    assume "dp ''WE_GearboxRatio'' = None"
    with assms dp dll show False
      by (simp add: init_setup_def init_avrSWAP_def set_avrSWAP_def setitem_def dict_get_def
          emul_def np_zeros_def)
  qed
  then obtain gb where "dp ''WE_GearboxRatio'' = Some gb" by blast
  with dp dll that show thesis by blast
qed

lemma init_from_setup:
  assumes "init_setup rd ld lib p ws rpm yaw yerr = Inr s0"
  shows "init rd ld lib p ws rpm yaw yerr =
    Inr ((call_discon s0)\<lparr>avrSWAP := (avrSWAP (call_discon s0))\<lparr>elems :=
           (elems (avrSWAP (call_discon s0)))[0 := Finite 1]\<rparr>\<rparr>)"
proof -
  from assms obtain dp dll gb where
    "rd p = Inr dp" "ld lib = Inr dll" "dp ''WE_GearboxRatio'' = Some gb"
    by (rule init_setupE)
  from init_setup_ok [where read_DISCON = rd and LoadLibrary = ld, OF this] assms
  have "length (elems (avrSWAP s0)) = 500"
    by auto
  with assms show ?thesis
    by (simp add: init_def set_avrSWAP_def setitem_def float_of_int_1
        to_float32_1 [simplified])
qed

lemma only_slots_refl: "only_slots I s s"
  by (simp add: only_slots_def)

lemma only_slots_trans:
  "only_slots I s s' \<Longrightarrow> only_slots I s' s'' \<Longrightarrow> only_slots I s s''"
  unfolding only_slots_def
  by (metis (no_types, lifting) ControllerInterface.surjective ControllerInterface.update_convs(11))

lemma set_avrSWAP_slots:
  "set_avrSWAP i rhs s = Inr s' \<Longrightarrow> i \<in> I \<Longrightarrow> only_slots I s s'"
  by (auto simp: set_avrSWAP_def setitem_def only_slots_def nth_list_update
      split: sum.splits if_splits)

lemma exec_slots:
  assumes "\<forall>c \<in> set cs. \<exists>i \<in> I. \<exists>rhs. c = set_avrSWAP i rhs"
  shows "only_slots I s (fst (exec cs s))"
  using assms
proof (induction cs arbitrary: s)
  case Nil
  then show ?case by (simp add: only_slots_refl)
next
  case (Cons c cs)
  then obtain i rhs where c: "c = set_avrSWAP i rhs" "i \<in> I" by auto
  show ?case
  proof (cases "c s")
    case (Inl e)
    then show ?thesis by (simp add: only_slots_refl)
  next
    case (Inr s')
    with c have "only_slots I s s'" by (auto intro: set_avrSWAP_slots)
    moreover from Cons have "only_slots I s' (fst (exec cs s'))" by simp
    ultimately show ?thesis using Inr by (auto intro: only_slots_trans)
  qed
qed

lemma add_states_form:
  "\<forall>c \<in> set (add_states ts). \<exists>i \<in> input_slots. \<exists>rhs. c = set_avrSWAP i rhs"
  by (simp add: add_states_def input_slots_def) blast

lemma add_states_slots: "only_slots input_slots s (fst (exec (add_states ts) s))"
  by (rule exec_slots [OF add_states_form])


section \<open>call_controller: failure and success\<close>


lemma valid_ts_exec:
  assumes "valid_ts ts" and "length (elems (avrSWAP s)) = 500"
  shows "snd (exec (add_states ts) s) = None"
proof -
  from assms(1) obtain t dt bp gs gt ge rs ws yfn yme where
    "ts ''t'' = Some t" "ts ''dt'' = Some dt" "ts ''bld_pitch'' = Some bp"
    "ts ''gen_speed'' = Some gs" "ts ''gen_torque'' = Some gt" "ts ''gen_eff'' = Some ge"
    "ts ''rot_speed'' = Some rs" "ts ''ws'' = Some ws" "ts ''Yaw_fromNorth'' = Some yfn"
    "ts ''Y_MeasErr'' = Some yme"
    by (rule valid_tsD)
  from exec_add_states [OF this assms(2) refl] show ?thesis by simp
qed

lemma exec_ok_all:
  "exec cs s = (s', None) \<Longrightarrow> c \<in> set cs \<Longrightarrow> \<exists>s1 s2. c s1 = Inr s2"
proof (induction cs arbitrary: s)
  case Nil
  then show ?case by simp
next
  case (Cons d cs)
  from Cons.prems(1) obtain s1 where d: "d s = Inr s1" and r: "exec cs s1 = (s', None)"
    by (cases "d s") auto
  show ?case
  proof (cases "c = d")
    case True
    with d show ?thesis by blast
  next
    case False
    with Cons.prems(2) have "c \<in> set cs" by simp
    from Cons.IH [OF r this] show ?thesis .
  qed
qed

lemma set_avrSWAP_get_ok:
  "set_avrSWAP i (\<lambda>self. dict_get ts k) s1 = Inr s2 \<Longrightarrow> ts k \<noteq> None"
  by (auto simp: set_avrSWAP_def dict_get_def split: option.splits)

lemma set_avrSWAP_emul_ok:
  "set_avrSWAP i (\<lambda>self. emul (emul (dict_get ts k1) (dict_get ts k2)) (dict_get ts k3)) s1
     = Inr s2 \<Longrightarrow> ts k3 \<noteq> None"
  by (auto simp: set_avrSWAP_def dict_get_def emul_def split: option.splits sum.splits)

lemma exec_valid_ts:
  assumes "snd (exec (add_states ts) s) = None"
  shows "valid_ts ts"
proof -
  from assms obtain s' where ex: "exec (add_states ts) s = (s', None)"
    by (cases "exec (add_states ts) s") auto
  have k: "ts k \<noteq> None" if "set_avrSWAP i (\<lambda>self. dict_get ts k) \<in> set (add_states ts)" for i k
    using exec_ok_all [OF ex that] set_avrSWAP_get_ok by blast
  have "ts ''gen_eff'' \<noteq> None"
    using exec_ok_all [OF ex, of "set_avrSWAP 14 (\<lambda>self. emul (emul (dict_get ts ''gen_speed'')
                                        (dict_get ts ''gen_torque''))
                                  (dict_get ts ''gen_eff''))"] set_avrSWAP_emul_ok
    by (auto simp: add_states_def)
  moreover have "ts ''t'' \<noteq> None" by (rule k [of 1]) (simp add: add_states_def)
  moreover have "ts ''dt'' \<noteq> None" by (rule k [of 2]) (simp add: add_states_def)
  moreover have "ts ''bld_pitch'' \<noteq> None" by (rule k [of 3]) (simp add: add_states_def)
  moreover have "ts ''gen_torque'' \<noteq> None" by (rule k [of 22]) (simp add: add_states_def)
  moreover have "ts ''gen_speed'' \<noteq> None" by (rule k [of 19]) (simp add: add_states_def)
  moreover have "ts ''rot_speed'' \<noteq> None" by (rule k [of 20]) (simp add: add_states_def)
  moreover have "ts ''ws'' \<noteq> None" by (rule k [of 26]) (simp add: add_states_def)
  moreover have "ts ''Yaw_fromNorth'' \<noteq> None" by (rule k [of 36]) (simp add: add_states_def)
  moreover have "ts ''Y_MeasErr'' \<noteq> None" by (rule k [of 23]) (simp add: add_states_def)
  ultimately show ?thesis by (simp add: valid_ts_def ts_keys_def)
qed

lemma call_controller_error:
  assumes "exec (add_states ts) s = (s1, Some e)"
  shows "call_controller s ts = (s1, Inl e)"
  using assms by (simp add: call_controller_def exec_append return_outputs_def)

lemma call_controller_ok:
  assumes "exec (add_states ts) s = (s1, None)" and "length (elems (avrSWAP s)) = 500"
  shows "call_controller s ts =
    ((call_discon s1)\<lparr>pitch := elems (avrSWAP (call_discon s1)) ! 41,
        torque := elems (avrSWAP (call_discon s1)) ! 46,
        nac_yawrate := Some (elems (avrSWAP (call_discon s1)) ! 47)\<rparr>,
     Inr (elems (avrSWAP (call_discon s1)) ! 46, elems (avrSWAP (call_discon s1)) ! 41,
          elems (avrSWAP (call_discon s1)) ! 47))"
proof -
  from add_states_slots [of s ts] assms have "length (elems (avrSWAP s1)) = 500"
    by (simp add: only_slots_def)
  from exec_run_and_read [OF this] assms(1) show ?thesis
    by (simp add: call_controller_def exec_append return_outputs_def)
qed

section \<open>An object constructed on a stub library\<close>

lemma constructed_eq:
  "init stub_read_DISCON (stub_LoadLibrary dll) ''libdiscon.so'' ''DISCON.IN''
      (Finite 10) (Finite 4) (Finite 0) (Finite 0) = Inr (constructed dll)"
proof -
  have "\<exists>s0. init_setup stub_read_DISCON (stub_LoadLibrary dll) ''libdiscon.so'' ''DISCON.IN''
      (Finite 10) (Finite 4) (Finite 0) (Finite 0) = Inr s0"
    by (subst init_setup_ok [where dp = "[''WE_GearboxRatio'' \<mapsto> Finite 97]" and dll = dll])
      (simp_all add: stub_read_DISCON_def stub_LoadLibrary_def)
  then obtain s0 where "init_setup stub_read_DISCON (stub_LoadLibrary dll) ''libdiscon.so''
      ''DISCON.IN'' (Finite 10) (Finite 4) (Finite 0) (Finite 0) = Inr s0" ..
  from init_from_setup [OF this] show ?thesis by (simp add: constructed_def)
qed

lemma init_length:
  assumes "init rd ld lib p ws rpm yaw yerr = Inr s"
  shows "length (elems (avrSWAP s)) = 500"
proof -
  from assms obtain s0 where s0: "init_setup rd ld lib p ws rpm yaw yerr = Inr s0"
    by (cases "init_setup rd ld lib p ws rpm yaw yerr") (simp_all add: init_def)
  then obtain dp dll gb where
    "rd p = Inr dp" "ld lib = Inr dll" "dp ''WE_GearboxRatio'' = Some gb"
    by (rule init_setupE)
  from init_setup_ok [where read_DISCON = rd and LoadLibrary = ld, OF this] s0
  have "length (elems (avrSWAP s0)) = 500" by auto
  with init_from_setup [OF s0] assms show ?thesis by auto
qed

lemma init_dtype:
  assumes "init rd ld lib p ws rpm yaw yerr = Inr s"
  shows "dtype (avrSWAP s) = float32"
proof -
  from assms obtain s0 where s0: "init_setup rd ld lib p ws rpm yaw yerr = Inr s0"
    by (cases "init_setup rd ld lib p ws rpm yaw yerr") (simp_all add: init_def)
  with init_from_setup [OF s0] assms show ?thesis by auto
qed

lemma constructed_length [simp]: "length (elems (avrSWAP (constructed dll))) = 500"
  by (rule init_length [OF constructed_eq])

lemma constructed_dtype [simp]: "dtype (avrSWAP (constructed dll)) = float32"
  by (rule init_dtype [OF constructed_eq])

lemma constructed_discon [simp]: "discon (constructed dll) = dll"
proof -
  have s0: "init_setup stub_read_DISCON (stub_LoadLibrary dll) ''libdiscon.so'' ''DISCON.IN''
      (Finite 10) (Finite 4) (Finite 0) (Finite 0) = Inr
     \<lparr>lib_name = ''libdiscon.so'', param_name = ''DISCON.IN'',
         DT = round_float64 (1 / 10), num_blade = 3, char_buffer = 500, avr_size = 500,
         pitch = Finite 0, torque = Finite 0, nac_yawrate = None,
         discon = dll,
         avrSWAP = \<lparr>dtype = float64, elems = (replicate 500 (Finite 0))
           [2 := round_float64 (1 / 10), 60 := Finite 3,
            19 := fmul (fmul (Finite 4) rpm2RadSec) (Finite 97), 20 := fmul (Finite 4) rpm2RadSec,
            23 := Finite 0, 26 := Finite 10, 36 := fmul (Finite 0) deg2rad, 0 := Finite 0,
            48 := Finite 500, 49 := float_of_int (int (length ''DISCON.IN'')),
            50 := Finite 500, 51 := Finite 500]\<rparr>,
         aviFAIL = 0, accINFILE = ''DISCON.IN'',
         avcOUTNAME = replicate 1000 (CHR 0x00), avcMSG = replicate 1000 (CHR 0x00)\<rparr>"
    by (rule init_setup_ok [where dp = "[''WE_GearboxRatio'' \<mapsto> Finite 97]"])
      (simp_all add: stub_read_DISCON_def stub_LoadLibrary_def)
  from init_from_setup [OF s0] constructed_eq [of dll] show ?thesis
    by simp
qed

lemma ts_example_fields:
  "ts_example ''t'' = Some (Finite 5)" "ts_example ''dt'' = Some (Finite (1 / 8))"
  "ts_example ''bld_pitch'' = Some (Finite (1 / 4))" "ts_example ''gen_speed'' = Some (Finite 40)"
  "ts_example ''gen_torque'' = Some (Finite 1000)" "ts_example ''gen_eff'' = Some (Finite (1 / 2))"
  "ts_example ''rot_speed'' = Some (Finite (1 / 2))" "ts_example ''ws'' = Some (Finite 11)"
  "ts_example ''Yaw_fromNorth'' = Some (Finite 0)" "ts_example ''Y_MeasErr'' = Some (Finite 0)"
  by (simp_all add: ts_example_def)

lemma valid_ts_example: "valid_ts ts_example"
  by (simp add: valid_ts_def ts_keys_def ts_example_fields)

lemma float32_tenth: "round_float32 (1 / 10) = Finite (13421773 / 134217728)"
proof -
  have "ilog2 (1 / 10) = - 4"
    by (simp add: ilog2_def bit_length.simps)
  then show ?thesis
    unfolding round_float32_def round_binary_def Let_def
    by (simp add: pow2_def round_half_even_def Let_def)
qed

lemma float32_hundredth: "round_float32 (1 / 100) = Finite (5368709 / 536870912)"
proof -
  have "ilog2 (1 / 100) = - 7"
    by (simp add: ilog2_def bit_length.simps)
  then show ?thesis
    unfolding round_float32_def round_binary_def Let_def
    by (simp add: pow2_def round_half_even_def Let_def)
qed

lemma float32_thousand: "round_float32 1000 = Finite 1000"
  using round_float32_of_nat [of 1000] by simp

section \<open>Properties of the interface\<close>

text \<open>
  C1. After the foreign call, call_controller reads the commanded pitch from slot 41, the
  commanded torque from slot 46 and the nacelle yaw rate from slot 47 of the buffer, stores
  them in the attributes pitch, torque and nac_yawrate, and returns them in the order
  (torque, pitch, nac_yawrate). The buffer they are read from is the one the foreign call
  left. In particular, if the foreign routine sets slots 41, 46 and 47 to a, b and c on
  every call, the call returns exactly (b, a, c).
\<close>

theorem call_controller_returns_outputs:
  assumes "valid_ts ts" and "length (elems (avrSWAP self)) = 500"
    and "call_controller self ts = (self', r)"
  shows "r = Inr (elems (avrSWAP self') ! 46, elems (avrSWAP self') ! 41,
                  elems (avrSWAP self') ! 47)
    \<and> torque self' = elems (avrSWAP self') ! 46
    \<and> pitch self' = elems (avrSWAP self') ! 41
    \<and> nac_yawrate self' = Some (elems (avrSWAP self') ! 47)
    \<and> avrSWAP self' = avrSWAP (call_discon (fst (exec (add_states ts) self)))
    \<and> ((\<forall>d f i out m. swap_out (discon self d f i out m) 41 = Some a
                      \<and> swap_out (discon self d f i out m) 46 = Some b
                      \<and> swap_out (discon self d f i out m) 47 = Some c)
        \<longrightarrow> r = Inr (b, a, c))"
proof -
  obtain s1 where s1: "exec (add_states ts) self = (s1, None)"
    using valid_ts_exec [OF assms(1,2)] by (cases "exec (add_states ts) self") auto
  from add_states_slots [of self ts] s1
  have len: "length (elems (avrSWAP s1)) = 500" and d: "discon s1 = discon self"
    using assms(2) by (simp_all add: only_slots_def) (metis ControllerInterface.select_convs(10) ControllerInterface.surjective ControllerInterface.update_convs(11))
  note cc = call_controller_ok [OF s1 assms(2)]
  from cc assms(3) have self': "self' = (call_discon s1)\<lparr>pitch := elems (avrSWAP (call_discon s1)) ! 41,
        torque := elems (avrSWAP (call_discon s1)) ! 46,
        nac_yawrate := Some (elems (avrSWAP (call_discon s1)) ! 47)\<rparr>"
    and r: "r = Inr (elems (avrSWAP (call_discon s1)) ! 46, elems (avrSWAP (call_discon s1)) ! 41,
          elems (avrSWAP (call_discon s1)) ! 47)"
    by simp_all
  have stub: "r = Inr (b, a, c)"
    if "\<forall>d f i out m. swap_out (discon self d f i out m) 41 = Some a
                      \<and> swap_out (discon self d f i out m) 46 = Some b
                      \<and> swap_out (discon self d f i out m) 47 = Some c"
    using that r len d by (simp add: nth_call_discon discon_call_def)
  from self' r s1 stub show ?thesis by simp
qed

theorem call_controller_returns_outputs_witness:
  "valid_ts ts_example \<and> length (elems (avrSWAP (constructed stub_const))) = 500
   \<and> snd (call_controller (constructed stub_const) ts_example) =
       Inr (Finite 1000, Finite (13421773 / 134217728), Finite (5368709 / 536870912))"
proof -
  have h: "\<forall>d f i out m.
      swap_out (discon (constructed stub_const) d f i out m) 41 = Some (round_float32 (1 / 10))
    \<and> swap_out (discon (constructed stub_const) d f i out m) 46 = Some (round_float32 1000)
    \<and> swap_out (discon (constructed stub_const) d f i out m) 47 = Some (round_float32 (1 / 100))"
    by (simp add: stub_const_def)
  from call_controller_returns_outputs [where self = "constructed stub_const"
      and ts = ts_example and a = "round_float32 (1 / 10)" and b = "round_float32 1000"
      and c = "round_float32 (1 / 100)",
      OF valid_ts_example constructed_length surjective_pairing] h
  have "snd (call_controller (constructed stub_const) ts_example) =
      Inr (round_float32 1000, round_float32 (1 / 10), round_float32 (1 / 100))"
    by blast
  then show ?thesis
    by (simp add: valid_ts_example float32_tenth float32_hundredth float32_thousand)
qed

text \<open>
  C2. For a turbine_state with all ten fields, call_controller makes exactly these stores
  before the foreign call: t into slot 1, dt into slot 2, bld_pitch into slots 3, 32 and 33,
  the product gen_speed * gen_torque * gen_eff into slot 14, gen_torque into slot 22,
  gen_speed into slot 19, rot_speed into slot 20, ws into slot 26, Yaw_fromNorth into slot
  36 and Y_MeasErr into slot 23, each value converted to the element type of the buffer.
  Nothing else of the object changes, and the statements that follow (the foreign call and
  the three reads) run on the object so updated.
\<close>

theorem call_controller_writes_inputs:
  assumes "ts ''t'' = Some t" "ts ''dt'' = Some dt" "ts ''bld_pitch'' = Some bp"
    "ts ''gen_speed'' = Some gs" "ts ''gen_torque'' = Some gt" "ts ''gen_eff'' = Some ge"
    "ts ''rot_speed'' = Some rs" "ts ''ws'' = Some ws" "ts ''Yaw_fromNorth'' = Some yfn"
    "ts ''Y_MeasErr'' = Some yme"
    and "length (elems (avrSWAP self)) = 500"
  shows "exec (add_states ts) self =
      (self\<lparr>avrSWAP := (avrSWAP self)\<lparr>elems := (elems (avrSWAP self))
         [1 := cast (dtype (avrSWAP self)) t,
          2 := cast (dtype (avrSWAP self)) dt,
          3 := cast (dtype (avrSWAP self)) bp,
          32 := cast (dtype (avrSWAP self)) bp,
          33 := cast (dtype (avrSWAP self)) bp,
          14 := cast (dtype (avrSWAP self)) (fmul (fmul gs gt) ge),
          22 := cast (dtype (avrSWAP self)) gt,
          19 := cast (dtype (avrSWAP self)) gs,
          20 := cast (dtype (avrSWAP self)) rs,
          26 := cast (dtype (avrSWAP self)) ws,
          36 := cast (dtype (avrSWAP self)) yfn,
          23 := cast (dtype (avrSWAP self)) yme]\<rparr>\<rparr>, None)
    \<and> call_controller self ts =
        return_outputs (exec run_and_read (fst (exec (add_states ts) self)))
    \<and> only_slots input_slots self (fst (exec (add_states ts) self))"
proof -
  note ex = exec_add_states [OF assms refl]
  have "call_controller self ts =
      return_outputs (exec run_and_read (fst (exec (add_states ts) self)))"
    unfolding call_controller_def exec_append ex by simp
  with ex add_states_slots [of self ts] show ?thesis by simp
qed

theorem call_controller_writes_inputs_witness:
  "ts_example ''t'' = Some (Finite 5) \<and> ts_example ''dt'' = Some (Finite (1 / 8))
   \<and> ts_example ''bld_pitch'' = Some (Finite (1 / 4))
   \<and> ts_example ''gen_speed'' = Some (Finite 40)
   \<and> ts_example ''gen_torque'' = Some (Finite 1000)
   \<and> ts_example ''gen_eff'' = Some (Finite (1 / 2))
   \<and> ts_example ''rot_speed'' = Some (Finite (1 / 2))
   \<and> ts_example ''ws'' = Some (Finite 11)
   \<and> ts_example ''Yaw_fromNorth'' = Some (Finite 0)
   \<and> ts_example ''Y_MeasErr'' = Some (Finite 0)
   \<and> length (elems (avrSWAP (constructed stub_idle))) = 500
   \<and> snd (exec (add_states ts_example) (constructed stub_idle)) = None
   \<and> elems (avrSWAP (fst (exec (add_states ts_example) (constructed stub_idle)))) ! 1
       = Finite 5
   \<and> elems (avrSWAP (fst (exec (add_states ts_example) (constructed stub_idle)))) ! 14
       = Finite 20000
   \<and> elems (avrSWAP (fst (exec (add_states ts_example) (constructed stub_idle)))) ! 0
       = elems (avrSWAP (constructed stub_idle)) ! 0"
proof -
  note th = call_controller_writes_inputs [OF ts_example_fields constructed_length,
      of stub_idle]
  have r1: "round_float64 40000 = Finite 40000"
    using float_of_int_exact [of 40000] by (simp add: float_of_int_def)
  have r2: "round_float64 20000 = Finite 20000"
    using float_of_int_exact [of 20000] by (simp add: float_of_int_def)
  have r3: "round_float32 20000 = Finite 20000"
    using round_float32_of_nat [of 20000] by simp
  have r4: "round_float32 5 = Finite 5"
    using round_float32_of_nat [of 5] by simp
  from th have "snd (exec (add_states ts_example) (constructed stub_idle)) = None"
    by simp
  moreover from th
  have "elems (avrSWAP (fst (exec (add_states ts_example) (constructed stub_idle)))) ! 1
       = Finite 5"
    by (simp add: r4)
  moreover from th
  have "elems (avrSWAP (fst (exec (add_states ts_example) (constructed stub_idle)))) ! 14
       = Finite 20000"
    by (simp add: r1 r2 r3)
  moreover from th
  have "elems (avrSWAP (fst (exec (add_states ts_example) (constructed stub_idle)))) ! 0
       = elems (avrSWAP (constructed stub_idle)) ! 0"
    by simp
  ultimately show ?thesis by (simp add: ts_example_fields)
qed

lemma only_slots_fields:
  assumes "only_slots I s s'"
  shows "discon s' = discon s" "aviFAIL s' = aviFAIL s" "avcMSG s' = avcMSG s"
    "avcOUTNAME s' = avcOUTNAME s" "accINFILE s' = accINFILE s"
    "pitch s' = pitch s" "torque s' = torque s" "nac_yawrate s' = nac_yawrate s"
proof -
  from assms obtain a where "s' = s\<lparr>avrSWAP := a\<rparr>"
    unfolding only_slots_def by blast
  then show "discon s' = discon s" "aviFAIL s' = aviFAIL s" "avcMSG s' = avcMSG s"
    "avcOUTNAME s' = avcOUTNAME s" "accINFILE s' = accINFILE s"
    "pitch s' = pitch s" "torque s' = torque s" "nac_yawrate s' = nac_yawrate s"
    by simp_all
qed




lemma init_setup_avrSWAP:
  assumes "init_setup rd ld lib p ws rpm yaw yerr = Inr s0"
  obtains dp gb where "rd p = Inr dp" and "dp ''WE_GearboxRatio'' = Some gb"
    and "avrSWAP s0 = \<lparr>dtype = float64, elems = (replicate 500 (Finite 0))
           [2 := round_float64 (1 / 10), 60 := Finite 3,
            19 := fmul (fmul rpm rpm2RadSec) gb, 20 := fmul rpm rpm2RadSec,
            23 := yerr, 26 := ws, 36 := fmul yaw deg2rad, 0 := Finite 0,
            48 := Finite 500, 49 := float_of_int (int (length p)),
            50 := Finite 500, 51 := Finite 500]\<rparr>"
proof -
  from assms obtain dp dll gb where
    h: "rd p = Inr dp" "ld lib = Inr dll" "dp ''WE_GearboxRatio'' = Some gb"
    by (rule init_setupE)
  from init_setup_ok [where read_DISCON = rd and LoadLibrary = ld, OF h] assms
  have "avrSWAP s0 = \<lparr>dtype = float64, elems = (replicate 500 (Finite 0))
           [2 := round_float64 (1 / 10), 60 := Finite 3,
            19 := fmul (fmul rpm rpm2RadSec) gb, 20 := fmul rpm rpm2RadSec,
            23 := yerr, 26 := ws, 36 := fmul yaw deg2rad, 0 := Finite 0,
            48 := Finite 500, 49 := float_of_int (int (length p)),
            50 := Finite 500, 51 := Finite 500]\<rparr>"
    by auto
  with h(1,3) show thesis by (rule that)
qed

lemma setup_default_eq:
  "init_setup stub_read_DISCON (stub_LoadLibrary dll) ''libdiscon.so'' ''DISCON.IN''
      (Finite 10) (Finite 4) (Finite 0) (Finite 0) = Inr (setup_default dll)"
  unfolding setup_default_def
  by (subst init_setup_ok [where dp = "[''WE_GearboxRatio'' \<mapsto> Finite 97]" and dll = dll];
      simp add: stub_read_DISCON_def stub_LoadLibrary_def)+

lemma setup_default_discon [simp]: "discon (setup_default dll) = dll"
  unfolding setup_default_def
  by (subst init_setup_ok [where dp = "[''WE_GearboxRatio'' \<mapsto> Finite 97]" and dll = dll];
      simp add: stub_read_DISCON_def stub_LoadLibrary_def)+

lemma not_valid_ts_missing: "\<not> valid_ts ts_missing"
  by (simp add: valid_ts_def ts_keys_def ts_missing_def)








lemma init_untouched_slot:
  assumes "init_setup rd ld lib p ws rpm yaw yerr = Inr self0"
    and "init rd ld lib p ws rpm yaw yerr = Inr self"
    and "swap_out (discon_call self0) i = None" and "0 < i" and "i < 500"
  shows "elems (avrSWAP self) ! i = to_float32 (elems (avrSWAP self0) ! i)"
proof -
  from assms(1) obtain dp gb where
    a: "avrSWAP self0 = \<lparr>dtype = float64, elems = (replicate 500 (Finite 0))
           [2 := round_float64 (1 / 10), 60 := Finite 3,
            19 := fmul (fmul rpm rpm2RadSec) gb, 20 := fmul rpm rpm2RadSec,
            23 := yerr, 26 := ws, 36 := fmul yaw deg2rad, 0 := Finite 0,
            48 := Finite 500, 49 := float_of_int (int (length p)),
            50 := Finite 500, 51 := Finite 500]\<rparr>"
    by (rule init_setup_avrSWAP)
  then have l: "length (elems (avrSWAP self0)) = 500" and d: "dtype (avrSWAP self0) = float64"
    by simp_all
  from assms(3,5) l d
  have "elems (avrSWAP (call_discon self0)) ! i = to_float32 (elems (avrSWAP self0) ! i)"
    by (simp add: nth_call_discon nth_discon_data)
  with init_from_setup [OF assms(1)] assms(2,4) show ?thesis by auto
qed

text \<open>
  C6, as stated, fails. Constructed with the default rotor speed of 4 rpm on a library that
  writes no slot, the object holds in slot 20 the float32 number 878453 / 2097152, which is
  not the product of 4 and 2*pi/60 the constructor computed.
\<close>

theorem init_rotor_speed_counterexample:
  "elems (avrSWAP (constructed stub_idle)) ! 20 = Finite (878453 / 2097152)
   \<and> fmul (Finite 4) rpm2RadSec = Finite (7545853602163669 / 18014398509481984)
   \<and> elems (avrSWAP (constructed stub_idle)) ! 20 \<noteq> fmul (Finite 4) rpm2RadSec"
proof -
  obtain dp gb where
    a: "avrSWAP (setup_default stub_idle) = \<lparr>dtype = float64, elems = (replicate 500 (Finite 0))
           [2 := round_float64 (1 / 10), 60 := Finite 3,
            19 := fmul (fmul (Finite 4) rpm2RadSec) gb, 20 := fmul (Finite 4) rpm2RadSec,
            23 := Finite 0, 26 := Finite 10, 36 := fmul (Finite 0) deg2rad, 0 := Finite 0,
            48 := Finite 500, 49 := float_of_int (int (length ''DISCON.IN'')),
            50 := Finite 500, 51 := Finite 500]\<rparr>"
    using init_setup_avrSWAP [OF setup_default_eq [of stub_idle]] by blast
  have "swap_out (discon_call (setup_default stub_idle)) 20 = None"
    by (simp add: discon_call_def stub_idle_def)
  from init_untouched_slot [OF setup_default_eq constructed_eq this]
  have "elems (avrSWAP (constructed stub_idle)) ! 20 = to_float32 (fmul (Finite 4) rpm2RadSec)"
    by (simp add: a)
  then show ?thesis
    by (simp add: rotor_speed_default rotor_speed_default32)
qed

text \<open>
  C6, amended. The constructor stores rotor_rpm_init * rpm2RadSec * WE_GearboxRatio in
  slot 19, rotor_rpm_init * rpm2RadSec in slot 20 and yaw_init * deg2rad in slot 36 of the
  float64 buffer it hands to its call of the foreign routine. That call converts the buffer
  to float32: after construction each of the three slots that the foreign routine did not
  write holds the float32 rounding of the value stored.
\<close>

theorem init_speed_and_yaw_slots:
  assumes "init_setup rd ld lib p ws rpm yaw yerr = Inr self0"
  shows "\<exists>dp gb self. rd p = Inr dp \<and> dp ''WE_GearboxRatio'' = Some gb
    \<and> elems (avrSWAP self0) ! 19 = fmul (fmul rpm rpm2RadSec) gb
    \<and> elems (avrSWAP self0) ! 20 = fmul rpm rpm2RadSec
    \<and> elems (avrSWAP self0) ! 36 = fmul yaw deg2rad
    \<and> init rd ld lib p ws rpm yaw yerr = Inr self
    \<and> (swap_out (discon_call self0) 19 = None \<longrightarrow>
          elems (avrSWAP self) ! 19 = to_float32 (fmul (fmul rpm rpm2RadSec) gb))
    \<and> (swap_out (discon_call self0) 20 = None \<longrightarrow>
          elems (avrSWAP self) ! 20 = to_float32 (fmul rpm rpm2RadSec))
    \<and> (swap_out (discon_call self0) 36 = None \<longrightarrow>
          elems (avrSWAP self) ! 36 = to_float32 (fmul yaw deg2rad))"
proof -
  from assms obtain dp gb where dp: "rd p = Inr dp" "dp ''WE_GearboxRatio'' = Some gb" and
    a: "avrSWAP self0 = \<lparr>dtype = float64, elems = (replicate 500 (Finite 0))
           [2 := round_float64 (1 / 10), 60 := Finite 3,
            19 := fmul (fmul rpm rpm2RadSec) gb, 20 := fmul rpm rpm2RadSec,
            23 := yerr, 26 := ws, 36 := fmul yaw deg2rad, 0 := Finite 0,
            48 := Finite 500, 49 := float_of_int (int (length p)),
            50 := Finite 500, 51 := Finite 500]\<rparr>"
    by (rule init_setup_avrSWAP)
  have v: "elems (avrSWAP self0) ! 19 = fmul (fmul rpm rpm2RadSec) gb"
    "elems (avrSWAP self0) ! 20 = fmul rpm rpm2RadSec"
    "elems (avrSWAP self0) ! 36 = fmul yaw deg2rad"
    by (simp_all add: a)
  obtain self where i: "init rd ld lib p ws rpm yaw yerr = Inr self"
    using init_from_setup [OF assms] by blast
  note u = init_untouched_slot [OF assms i]
  have "swap_out (discon_call self0) 19 = None \<longrightarrow>
          elems (avrSWAP self) ! 19 = to_float32 (fmul (fmul rpm rpm2RadSec) gb)"
    using u [of 19] v by simp
  moreover have "swap_out (discon_call self0) 20 = None \<longrightarrow>
          elems (avrSWAP self) ! 20 = to_float32 (fmul rpm rpm2RadSec)"
    using u [of 20] v by simp
  moreover have "swap_out (discon_call self0) 36 = None \<longrightarrow>
          elems (avrSWAP self) ! 36 = to_float32 (fmul yaw deg2rad)"
    using u [of 36] v by simp
  ultimately have c: "rd p = Inr dp \<and> dp ''WE_GearboxRatio'' = Some gb
    \<and> elems (avrSWAP self0) ! 19 = fmul (fmul rpm rpm2RadSec) gb
    \<and> elems (avrSWAP self0) ! 20 = fmul rpm rpm2RadSec
    \<and> elems (avrSWAP self0) ! 36 = fmul yaw deg2rad
    \<and> init rd ld lib p ws rpm yaw yerr = Inr self
    \<and> (swap_out (discon_call self0) 19 = None \<longrightarrow>
          elems (avrSWAP self) ! 19 = to_float32 (fmul (fmul rpm rpm2RadSec) gb))
    \<and> (swap_out (discon_call self0) 20 = None \<longrightarrow>
          elems (avrSWAP self) ! 20 = to_float32 (fmul rpm rpm2RadSec))
    \<and> (swap_out (discon_call self0) 36 = None \<longrightarrow>
          elems (avrSWAP self) ! 36 = to_float32 (fmul yaw deg2rad))"
    using dp v i by simp
  show ?thesis
    by (rule exI [of _ dp], rule exI [of _ gb], rule exI [of _ self]) (rule c)
qed

theorem init_speed_and_yaw_slots_witness:
  "init_setup stub_read_DISCON (stub_LoadLibrary stub_idle) ''libdiscon.so'' ''DISCON.IN''
      (Finite 10) (Finite 4) (Finite 0) (Finite 0) = Inr (setup_default stub_idle)
   \<and> swap_out (discon_call (setup_default stub_idle)) 20 = None
   \<and> elems (avrSWAP (setup_default stub_idle)) ! 20
        = Finite (7545853602163669 / 18014398509481984)
   \<and> elems (avrSWAP (constructed stub_idle)) ! 20 = Finite (878453 / 2097152)"
proof -
  have n: "swap_out (discon_call (setup_default stub_idle)) 20 = None"
    by (simp add: discon_call_def stub_idle_def)
  from init_speed_and_yaw_slots [OF setup_default_eq [of stub_idle]]
    constructed_eq [of stub_idle] n
  have "elems (avrSWAP (setup_default stub_idle)) ! 20 = fmul (Finite 4) rpm2RadSec
    \<and> elems (avrSWAP (constructed stub_idle)) ! 20 = to_float32 (fmul (Finite 4) rpm2RadSec)"
    by auto
  with n setup_default_eq [of stub_idle] show ?thesis
    by (simp add: rotor_speed_default rotor_speed_default32)
qed

text \<open>
  C7, as stated, fails. In the constructor's call of a foreign routine that writes no slot,
  slot 2 holds the float64 number 0.1 before call_discon and the float32 number 0.1, a
  different number, after it.
\<close>

theorem call_discon_roundtrip_counterexample:
  "swap_out (discon_call (setup_default stub_idle)) 2 = None
   \<and> elems (avrSWAP (setup_default stub_idle)) ! 2
        = Finite (3602879701896397 / 36028797018963968)
   \<and> elems (avrSWAP (call_discon (setup_default stub_idle))) ! 2
        = Finite (13421773 / 134217728)
   \<and> elems (avrSWAP (call_discon (setup_default stub_idle))) ! 2
        \<noteq> elems (avrSWAP (setup_default stub_idle)) ! 2"
proof -
  obtain dp gb where
    a: "avrSWAP (setup_default stub_idle) = \<lparr>dtype = float64, elems = (replicate 500 (Finite 0))
           [2 := round_float64 (1 / 10), 60 := Finite 3,
            19 := fmul (fmul (Finite 4) rpm2RadSec) gb, 20 := fmul (Finite 4) rpm2RadSec,
            23 := Finite 0, 26 := Finite 10, 36 := fmul (Finite 0) deg2rad, 0 := Finite 0,
            48 := Finite 500, 49 := float_of_int (int (length ''DISCON.IN'')),
            50 := Finite 500, 51 := Finite 500]\<rparr>"
    using init_setup_avrSWAP [OF setup_default_eq [of stub_idle]] by blast
  have n: "swap_out (discon_call (setup_default stub_idle)) 2 = None"
    by (simp add: discon_call_def stub_idle_def)
  have b: "elems (avrSWAP (setup_default stub_idle)) ! 2
        = Finite (3602879701896397 / 36028797018963968)"
    by (simp add: a float64_tenth)
  have "elems (avrSWAP (call_discon (setup_default stub_idle))) ! 2
      = to_float32 (elems (avrSWAP (setup_default stub_idle)) ! 2)"
    using n by (simp add: nth_call_discon nth_discon_data a)
  then have c: "elems (avrSWAP (call_discon (setup_default stub_idle))) ! 2
        = Finite (13421773 / 134217728)"
    unfolding b by (simp add: float32_of_float64_tenth)
  from n b c show ?thesis by simp
qed

text \<open>
  C7, amended. After call_discon, every slot the foreign routine did not write holds the
  float32 conversion of the value it held before: the value itself when the buffer was a
  float32 array already, its float32 rounding when the buffer was the float64 array of the
  constructor. The buffer is a float32 array after every call_discon, so from the second
  call on no such slot changes.
\<close>

theorem call_discon_untouched_slots:
  assumes "i < length (elems (avrSWAP self))" and "swap_out (discon_call self) i = None"
  shows "elems (avrSWAP (call_discon self)) ! i =
      (case dtype (avrSWAP self) of
         float32 \<Rightarrow> elems (avrSWAP self) ! i
       | float64 \<Rightarrow> to_float32 (elems (avrSWAP self) ! i))
    \<and> dtype (avrSWAP (call_discon self)) = float32"
  using assms by (simp add: nth_call_discon nth_discon_data)

theorem call_discon_untouched_slots_witness:
  "2 < length (elems (avrSWAP (constructed stub_const)))
   \<and> swap_out (discon_call (constructed stub_const)) 2 = None
   \<and> elems (avrSWAP (call_discon (constructed stub_const))) ! 2
       = elems (avrSWAP (constructed stub_const)) ! 2"
proof -
  have n: "swap_out (discon_call (constructed stub_const)) 2 = None"
    by (simp add: discon_call_def stub_const_def)
  have l: "2 < length (elems (avrSWAP (constructed stub_const)))" by simp
  from call_discon_untouched_slots [OF l n] n show ?thesis by simp
qed

lemma nth_init_elems_other:
  assumes "i \<notin> init_slots" and "i < 500"
  shows "(replicate 500 (Finite 0))
           [2 := a2, 60 := a60, 19 := a19, 20 := a20, 23 := a23, 26 := a26, 36 := a36,
            0 := a0, 48 := a48, 49 := a49, 50 := a50, 51 := a51] ! i = Finite 0"
  using assms by (simp add: init_slots_def)

text \<open>
  C8. When the constructor first calls the foreign routine, the buffer is a float64 array
  of 500 slots; slots 48, 50 and 51 hold 500 and slot 49 holds the length of the name of
  the parameter file (as a number, exact below 2^24 characters); every slot the
  constructor did not assign holds zero. The same holds of the float32 array handed to
  the foreign routine.
\<close>

theorem init_buffer_bookkeeping:
  assumes "init_setup rd ld lib p ws rpm yaw yerr = Inr self0"
  shows "dtype (avrSWAP self0) = float64
    \<and> length (elems (avrSWAP self0)) = 500
    \<and> length (discon_data self0) = 500
    \<and> elems (avrSWAP self0) ! 48 = Finite 500 \<and> discon_data self0 ! 48 = Finite 500
    \<and> elems (avrSWAP self0) ! 50 = Finite 500 \<and> discon_data self0 ! 50 = Finite 500
    \<and> elems (avrSWAP self0) ! 51 = Finite 500 \<and> discon_data self0 ! 51 = Finite 500
    \<and> elems (avrSWAP self0) ! 49 = float_of_int (int (length p))
    \<and> (length p < 2 ^ 24 \<longrightarrow>
          elems (avrSWAP self0) ! 49 = Finite (of_nat (length p))
        \<and> discon_data self0 ! 49 = Finite (of_nat (length p)))
    \<and> (\<forall>i < 500. i \<notin> init_slots \<longrightarrow>
          elems (avrSWAP self0) ! i = Finite 0 \<and> discon_data self0 ! i = Finite 0)"
proof -
  from assms obtain dp gb where
    a: "avrSWAP self0 = \<lparr>dtype = float64, elems = (replicate 500 (Finite 0))
           [2 := round_float64 (1 / 10), 60 := Finite 3,
            19 := fmul (fmul rpm rpm2RadSec) gb, 20 := fmul rpm rpm2RadSec,
            23 := yerr, 26 := ws, 36 := fmul yaw deg2rad, 0 := Finite 0,
            48 := Finite 500, 49 := float_of_int (int (length p)),
            50 := Finite 500, 51 := Finite 500]\<rparr>"
    by (rule init_setup_avrSWAP)
  have d: "dtype (avrSWAP self0) = float64" and l: "length (elems (avrSWAP self0)) = 500"
    by (simp_all add: a)
  have v: "elems (avrSWAP self0) ! 48 = Finite 500" "elems (avrSWAP self0) ! 50 = Finite 500"
    "elems (avrSWAP self0) ! 51 = Finite 500"
    "elems (avrSWAP self0) ! 49 = float_of_int (int (length p))"
    by (simp_all add: a)
  have dd: "discon_data self0 ! i = to_float32 (elems (avrSWAP self0) ! i)" if "i < 500" for i
    using that l d by (simp add: nth_discon_data)
  have w: "discon_data self0 ! 48 = Finite 500" "discon_data self0 ! 50 = Finite 500"
    "discon_data self0 ! 51 = Finite 500"
    by (simp_all add: dd v to_float32_500 [simplified])
  have n: "elems (avrSWAP self0) ! 49 = Finite (of_nat (length p))
        \<and> discon_data self0 ! 49 = Finite (of_nat (length p))" if "length p < 2 ^ 24"
  proof -
    from that have "length p < 2 ^ 53"
      by (rule less_trans) simp
    from float_of_int_exact [OF this] v(4)
    have "elems (avrSWAP self0) ! 49 = Finite (of_nat (length p))" by simp
    with dd [of 49] round_float32_of_nat [OF that] show ?thesis by simp
  qed
  have z: "elems (avrSWAP self0) ! i = Finite 0 \<and> discon_data self0 ! i = Finite 0"
    if "i < 500" "i \<notin> init_slots" for i
  proof -
    from nth_init_elems_other [OF that(2,1)] have "elems (avrSWAP self0) ! i = Finite 0"
      by (simp add: a)
    with dd [OF that(1)] show ?thesis by (simp add: to_float32_0 [simplified])
  qed
  from d l v w n z show ?thesis by simp
qed

theorem init_buffer_bookkeeping_witness:
  "init_setup stub_read_DISCON (stub_LoadLibrary stub_idle) ''libdiscon.so'' ''DISCON.IN''
      (Finite 10) (Finite 4) (Finite 0) (Finite 0) = Inr (setup_default stub_idle)
   \<and> length ''DISCON.IN'' < 2 ^ 24
   \<and> (100::nat) < 500 \<and> 100 \<notin> init_slots
   \<and> discon_data (setup_default stub_idle) ! 48 = Finite 500
   \<and> discon_data (setup_default stub_idle) ! 49 = Finite 9
   \<and> discon_data (setup_default stub_idle) ! 100 = Finite 0"
proof -
  have a: "length ''DISCON.IN'' < 2 ^ 24" by simp
  have b: "(100::nat) < 500" "100 \<notin> init_slots" by (simp_all add: init_slots_def)
  note th = init_buffer_bookkeeping [OF setup_default_eq [of stub_idle]]
  from th have "discon_data (setup_default stub_idle) ! 48 = Finite 500" by blast
  moreover from th a have "discon_data (setup_default stub_idle) ! 49 = Finite 9" by simp
  moreover from th b have "discon_data (setup_default stub_idle) ! 100 = Finite 0" by blast
  ultimately show ?thesis using a b setup_default_eq [of stub_idle] by simp
qed

lemma length_call_controller:
  assumes "length (elems (avrSWAP s)) = 500"
  shows "length (elems (avrSWAP (fst (call_controller s ts)))) = 500"
proof -
  obtain s1 r where ex: "exec (add_states ts) s = (s1, r)"
    by (cases "exec (add_states ts) s") auto
  from add_states_slots [of s ts] ex assms have l: "length (elems (avrSWAP s1)) = 500"
    by (simp add: only_slots_def)
  show ?thesis
  proof (cases r)
    case None
    with ex call_controller_ok [of ts s s1] assms l show ?thesis by simp
  next
    case (Some e)
    with ex call_controller_error [of ts s s1 e] l show ?thesis by simp
  qed
qed

lemma length_advance_all:
  "length (elems (avrSWAP s)) = 500 \<Longrightarrow> length (elems (avrSWAP (advance_all s tss))) = 500"
  by (induction tss arbitrary: s) (simp_all add: length_call_controller)

text \<open>
  C9. The buffer has exactly 500 slots when the constructor returns; call_discon never
  changes the length of the buffer; call_controller, whether it returns or raises, leaves
  a buffer of 500 slots a buffer of 500 slots, and so does every sequence of calls on a
  constructed object.
\<close>

theorem buffer_length_invariant:
  "(init rd ld lib p ws rpm yaw yerr = Inr self \<longrightarrow>
       length (elems (avrSWAP self)) = 500
     \<and> length (elems (avrSWAP (advance_all self tss))) = 500)
   \<and> length (elems (avrSWAP (call_discon s))) = length (elems (avrSWAP s))
   \<and> (length (elems (avrSWAP s)) = 500 \<longrightarrow>
        length (elems (avrSWAP (fst (call_controller s ts)))) = 500)"
  using init_length [of rd ld lib p ws rpm yaw yerr self]
  by (simp add: length_call_controller length_advance_all)

theorem buffer_length_invariant_witness:
  "init stub_read_DISCON (stub_LoadLibrary stub_const) ''libdiscon.so'' ''DISCON.IN''
      (Finite 10) (Finite 4) (Finite 0) (Finite 0) = Inr (constructed stub_const)
   \<and> length (elems (avrSWAP (constructed stub_const))) = 500
   \<and> length (elems (avrSWAP (advance_all (constructed stub_const)
        [ts_example, ts_missing]))) = 500
   \<and> length (elems (avrSWAP (fst (call_controller (constructed stub_const) ts_missing))))
       = 500"
  using buffer_length_invariant [of stub_read_DISCON "stub_LoadLibrary stub_const"
      "''libdiscon.so''" "''DISCON.IN''" "Finite 10" "Finite 4" "Finite 0" "Finite 0"
      "constructed stub_const" "[ts_example, ts_missing]" "constructed stub_const" ts_missing]
    constructed_eq [of stub_const]
  by blast

lemma call_controller_flag:
  assumes "valid_ts ts" and "length (elems (avrSWAP self)) = 500"
  shows "aviFAIL (fst (call_controller self ts))
           = fail_out (discon_call (fst (exec (add_states ts) self)))"
    and "avcMSG (fst (call_controller self ts))
           = msg_out (discon_call (fst (exec (add_states ts) self)))"
    and "snd (call_controller self ts) =
           Inr (elems (avrSWAP (fst (call_controller self ts))) ! 46,
                elems (avrSWAP (fst (call_controller self ts))) ! 41,
                elems (avrSWAP (fst (call_controller self ts))) ! 47)"
    and "discon (fst (exec (add_states ts) self)) = discon self"
proof -
  obtain s1 where s1: "exec (add_states ts) self = (s1, None)"
    using valid_ts_exec [OF assms] by (cases "exec (add_states ts) self") auto
  from add_states_slots [of self ts] s1 have "only_slots input_slots self s1" by simp
  note d = only_slots_fields(1) [OF this]
  note cc = call_controller_ok [OF s1 assms(2)]
  show "aviFAIL (fst (call_controller self ts))
           = fail_out (discon_call (fst (exec (add_states ts) self)))"
    and "avcMSG (fst (call_controller self ts))
           = msg_out (discon_call (fst (exec (add_states ts) self)))"
    unfolding cc s1 by (simp_all add: call_discon_eq)
  show "snd (call_controller self ts) =
           Inr (elems (avrSWAP (fst (call_controller self ts))) ! 46,
                elems (avrSWAP (fst (call_controller self ts))) ! 41,
                elems (avrSWAP (fst (call_controller self ts))) ! 47)"
    unfolding cc by simp
  from d s1 show "discon (fst (exec (add_states ts) self)) = discon self" by simp
qed

lemma constructed_zero_slot:
  assumes "\<forall>d f i out m. swap_out (dll d f i out m) = Map.empty"
    and "i < 500" and "i \<notin> init_slots"
  shows "elems (avrSWAP (constructed dll)) ! i = Finite 0"
proof -
  obtain dp gb where
    a: "avrSWAP (setup_default dll) = \<lparr>dtype = float64, elems = (replicate 500 (Finite 0))
           [2 := round_float64 (1 / 10), 60 := Finite 3,
            19 := fmul (fmul (Finite 4) rpm2RadSec) gb, 20 := fmul (Finite 4) rpm2RadSec,
            23 := Finite 0, 26 := Finite 10, 36 := fmul (Finite 0) deg2rad, 0 := Finite 0,
            48 := Finite 500, 49 := float_of_int (int (length ''DISCON.IN'')),
            50 := Finite 500, 51 := Finite 500]\<rparr>"
    using init_setup_avrSWAP [OF setup_default_eq [of dll]] by blast
  from assms(3) have pos: "0 < i" by (cases i) (simp_all add: init_slots_def)
  have n: "swap_out (discon_call (setup_default dll)) i = None"
    using assms(1) by (simp add: discon_call_def)
  from nth_init_elems_other [OF assms(3,2)]
  have "elems (avrSWAP (setup_default dll)) ! i = Finite 0" by (simp add: a)
  with init_untouched_slot [OF setup_default_eq constructed_eq n pos assms(2)]
  show ?thesis by (simp add: to_float32_0 [simplified])
qed

lemma quiet_outputs:
  assumes "\<forall>d f i out m. swap_out (dll d f i out m) = Map.empty"
  shows "snd (call_controller (constructed dll) ts_example)
           = Inr (Finite 0, Finite 0, Finite 0)"
proof -
  let ?s = "constructed dll"
  obtain s1 where s1: "exec (add_states ts_example) ?s = (s1, None)"
    using valid_ts_exec [OF valid_ts_example constructed_length [of dll]]
    by (cases "exec (add_states ts_example) ?s") auto
  from add_states_slots [of ?s ts_example] s1 have os: "only_slots input_slots ?s s1" by simp
  then have l: "length (elems (avrSWAP s1)) = 500" and dt: "dtype (avrSWAP s1) = float32"
    by (simp_all add: only_slots_def)
  from only_slots_fields(1) [OF os] have d: "discon s1 = dll" by simp
  have z: "elems (avrSWAP s1) ! i = Finite 0" if "i < 500" "i \<notin> init_slots" "i \<notin> input_slots" for i
    using os that constructed_zero_slot [OF assms that(1,2)] by (simp add: only_slots_def)
  have w: "elems (avrSWAP (call_discon s1)) ! i = Finite 0"
    if "i < 500" "i \<notin> init_slots" "i \<notin> input_slots" for i
    using that l dt d assms z [OF that]
    by (simp add: nth_call_discon discon_call_def discon_data_float32)
  have "elems (avrSWAP (call_discon s1)) ! 46 = Finite 0"
    "elems (avrSWAP (call_discon s1)) ! 41 = Finite 0"
    "elems (avrSWAP (call_discon s1)) ! 47 = Finite 0"
    by (rule w; simp add: init_slots_def input_slots_def)+
  with call_controller_ok [OF s1 constructed_length] show ?thesis by simp
qed

text \<open>
  C4, as stated, fails. On an object constructed on a library that sets the status flag to
  -1 and writes the message ERROR on every call, call_controller raises nothing and returns
  (0, 0, 0), which is what it returns on a library that leaves the flag at 0 and writes no
  message: what call_controller hands to its caller does not tell the failure.
\<close>

theorem failure_not_surfaced_counterexample:
  "aviFAIL (fst (call_controller (constructed stub_fail) ts_example)) = - 1
   \<and> snd (call_controller (constructed stub_fail) ts_example)
       = Inr (Finite 0, Finite 0, Finite 0)
   \<and> aviFAIL (fst (call_controller (constructed stub_idle) ts_example)) = 0
   \<and> snd (call_controller (constructed stub_idle) ts_example)
       = Inr (Finite 0, Finite 0, Finite 0)"
proof -
  have a: "aviFAIL (fst (call_controller (constructed stub_fail) ts_example)) = - 1"
    using call_controller_flag(1,4) [OF valid_ts_example constructed_length, of stub_fail]
    by (simp add: discon_call_def stub_fail_def)
  have "aviFAIL (setup_default stub_idle) = 0"
    unfolding setup_default_def
    by (subst init_setup_ok [where dp = "[''WE_GearboxRatio'' \<mapsto> Finite 97]"
          and dll = stub_idle];
        simp add: stub_read_DISCON_def stub_LoadLibrary_def)+
  then have "aviFAIL (call_discon (setup_default stub_idle)) = 0"
    by (simp add: call_discon_eq discon_call_def stub_idle_def)
  with init_from_setup [OF setup_default_eq [of stub_idle]] constructed_eq [of stub_idle]
  have c0: "aviFAIL (constructed stub_idle) = 0" by simp
  from add_states_slots [of "constructed stub_idle" ts_example]
  have "aviFAIL (fst (exec (add_states ts_example) (constructed stub_idle))) = 0"
    using only_slots_fields(2) c0 by simp
  with call_controller_flag(1,4) [OF valid_ts_example constructed_length, of stub_idle]
  have b: "aviFAIL (fst (call_controller (constructed stub_idle) ts_example)) = 0"
    by (simp add: discon_call_def stub_idle_def)
  have "snd (call_controller (constructed stub_fail) ts_example)
       = Inr (Finite 0, Finite 0, Finite 0)"
    by (rule quiet_outputs) (simp add: stub_fail_def)
  moreover have "snd (call_controller (constructed stub_idle) ts_example)
       = Inr (Finite 0, Finite 0, Finite 0)"
    by (rule quiet_outputs) (simp add: stub_idle_def)
  ultimately show ?thesis using a b by simp
qed

text \<open>
  C4, amended. When call_controller reaches the foreign routine, it neither raises nor
  returns the status flag or the message: it returns the three outputs read from slots 46,
  41 and 47, whatever the flag. The flag and the message the routine left stay in the
  attributes aviFAIL and avcMSG of the object, which call_controller does not overwrite or
  reset. In particular, with a routine that sets the flag to a (negative) value and writes
  a message on every call, the object holds that flag and that message after the call.
\<close>

theorem failure_kept_in_attributes:
  assumes "valid_ts ts" and "length (elems (avrSWAP self)) = 500"
  shows "aviFAIL (fst (call_controller self ts))
           = fail_out (discon_call (fst (exec (add_states ts) self)))
    \<and> avcMSG (fst (call_controller self ts))
           = msg_out (discon_call (fst (exec (add_states ts) self)))
    \<and> snd (call_controller self ts) =
           Inr (elems (avrSWAP (fst (call_controller self ts))) ! 46,
                elems (avrSWAP (fst (call_controller self ts))) ! 41,
                elems (avrSWAP (fst (call_controller self ts))) ! 47)
    \<and> ((\<forall>d f i out m. fail_out (discon self d f i out m) = flag
                      \<and> msg_out (discon self d f i out m) = msg)
        \<longrightarrow> aviFAIL (fst (call_controller self ts)) = flag
          \<and> avcMSG (fst (call_controller self ts)) = msg)"
proof -
  note f = call_controller_flag [OF assms]
  have "fail_out (discon_call (fst (exec (add_states ts) self))) = flag
      \<and> msg_out (discon_call (fst (exec (add_states ts) self))) = msg"
    if "\<forall>d f i out m. fail_out (discon self d f i out m) = flag
                      \<and> msg_out (discon self d f i out m) = msg"
    using that f(4) by (simp add: discon_call_def)
  with f(1,2,3) show ?thesis by simp
qed

theorem failure_kept_in_attributes_witness:
  "valid_ts ts_example \<and> length (elems (avrSWAP (constructed stub_fail))) = 500
   \<and> aviFAIL (fst (call_controller (constructed stub_fail) ts_example)) = - 1
   \<and> sint (aviFAIL (fst (call_controller (constructed stub_fail) ts_example))) < 0
   \<and> avcMSG (fst (call_controller (constructed stub_fail) ts_example))
       = ''ERROR'' @ replicate 995 (CHR 0x00)"
proof -
  have h: "\<forall>d f i out m. fail_out (discon (constructed stub_fail) d f i out m) = - 1
      \<and> msg_out (discon (constructed stub_fail) d f i out m)
          = ''ERROR'' @ replicate 995 (CHR 0x00)"
    by (simp add: stub_fail_def)
  from failure_kept_in_attributes [OF valid_ts_example constructed_length,
      of stub_fail "- 1" "''ERROR'' @ replicate 995 (CHR 0x00)"] h
  have "aviFAIL (fst (call_controller (constructed stub_fail) ts_example)) = - 1
    \<and> avcMSG (fst (call_controller (constructed stub_fail) ts_example))
       = ''ERROR'' @ replicate 995 (CHR 0x00)"
    by blast
  then show ?thesis by (simp add: valid_ts_example)
qed

lemma call_controller_no_t:
  assumes "ts ''t'' = None"
  shows "call_controller s ts = (s, Inl (KeyError ''t''))"
  using assms
  by (simp add: call_controller_def add_states_def set_avrSWAP_def dict_get_def
      return_outputs_def)

lemma call_controller_no_dt:
  assumes "ts ''t'' = Some t" and "ts ''dt'' = None"
    and "length (elems (avrSWAP s)) = 500"
  shows "snd (call_controller s ts) = Inl (KeyError ''dt'')"
    and "elems (avrSWAP (fst (call_controller s ts))) ! 2 = elems (avrSWAP s) ! 2"
  using assms
  by (simp_all add: call_controller_def add_states_def set_avrSWAP_def setitem_def
      dict_get_def return_outputs_def)

lemma exec_add_states_dt:
  assumes "ts ''t'' = Some t" and "ts ''dt'' = Some dt"
    and "length (elems (avrSWAP s)) = 500"
  shows "elems (avrSWAP (fst (exec (add_states ts) s))) ! 2 = cast (dtype (avrSWAP s)) dt"
proof -
  define s2 where "s2 = s\<lparr>avrSWAP := (avrSWAP s)\<lparr>elems := (elems (avrSWAP s))
      [1 := cast (dtype (avrSWAP s)) t, 2 := cast (dtype (avrSWAP s)) dt]\<rparr>\<rparr>"
  define rest where "rest = drop 2 (add_states ts)"
  have r: "\<forall>c \<in> set rest. \<exists>i \<in> input_slots - {1, 2}. \<exists>rhs. c = set_avrSWAP i rhs"
    unfolding rest_def by (simp add: add_states_def input_slots_def) blast
  have "exec (add_states ts) s = exec rest s2"
    unfolding rest_def s2_def using assms
    by (simp add: add_states_def set_avrSWAP_def setitem_def dict_get_def)
  moreover from exec_slots [OF r, of s2]
  have "elems (avrSWAP (fst (exec rest s2))) ! 2 = elems (avrSWAP s2) ! 2"
    by (simp add: only_slots_def)
  moreover have "elems (avrSWAP s2) ! 2 = cast (dtype (avrSWAP s)) dt"
    using assms(3) by (simp add: s2_def)
  ultimately show ?thesis by simp
qed

lemma constructed_slot_2:
  "elems (avrSWAP (constructed stub_idle)) ! 2 = Finite (13421773 / 134217728)"
proof -
  obtain dp gb where
    a: "avrSWAP (setup_default stub_idle) = \<lparr>dtype = float64, elems = (replicate 500 (Finite 0))
           [2 := round_float64 (1 / 10), 60 := Finite 3,
            19 := fmul (fmul (Finite 4) rpm2RadSec) gb, 20 := fmul (Finite 4) rpm2RadSec,
            23 := Finite 0, 26 := Finite 10, 36 := fmul (Finite 0) deg2rad, 0 := Finite 0,
            48 := Finite 500, 49 := float_of_int (int (length ''DISCON.IN'')),
            50 := Finite 500, 51 := Finite 500]\<rparr>"
    using init_setup_avrSWAP [OF setup_default_eq [of stub_idle]] by blast
  have "swap_out (discon_call (setup_default stub_idle)) 2 = None"
    by (simp add: discon_call_def stub_idle_def)
  from init_untouched_slot [OF setup_default_eq constructed_eq this]
  show ?thesis
    by (simp add: a float64_tenth float32_of_float64_tenth)
qed

text \<open>
  C10, as stated, fails. A call of call_controller with a turbine_state that has the field
  dt (0.125) but not the field t raises KeyError for t at its first statement: slot 2 still
  holds the constant 0.1 of the constructor (as a float32 number) after the call.
\<close>

theorem timestep_not_overwritten_counterexample:
  "ts_no_t ''dt'' = Some (Finite (1 / 8))
   \<and> snd (call_controller (constructed stub_idle) ts_no_t) = Inl (KeyError ''t'')
   \<and> elems (avrSWAP (fst (call_controller (constructed stub_idle) ts_no_t))) ! 2
       = Finite (13421773 / 134217728)
   \<and> elems (avrSWAP (fst (call_controller (constructed stub_idle) ts_no_t))) ! 2
       \<noteq> Finite (1 / 8)"
proof -
  have "ts_no_t ''t'' = None" by (simp add: ts_no_t_def)
  from call_controller_no_t [where ts = ts_no_t and s = "constructed stub_idle", OF this]
    constructed_slot_2
  show ?thesis by (simp add: ts_no_t_def ts_example_def)
qed

text \<open>
  C10, amended. Whatever the arguments of the constructor and the contents of the
  parameter file, the buffer the constructor hands to its foreign call holds the constant
  0.1 (the float64 number written 0.1) in slot 2 and 3 in slot 60; the foreign routine sees
  their float32 values. Every call of call_controller whose turbine_state has the fields t
  and dt overwrites slot 2 with dt: when all ten fields are present, the foreign routine is
  called on an array whose slot 2 is dt (as a float32 number), and after the call the slot
  holds that number unless the foreign routine wrote it; when a later field is missing, the
  call raises with dt in slot 2. A call whose turbine_state lacks t raises KeyError at once
  and changes nothing; one that has t but lacks dt raises KeyError and leaves slot 2 as it
  was.
\<close>

theorem timestep_and_blade_slots:
  assumes "init_setup rd ld lib p ws rpm yaw yerr = Inr self0"
    and "length (elems (avrSWAP s)) = 500"
  shows "elems (avrSWAP self0) ! 2 = Finite (3602879701896397 / 36028797018963968)
    \<and> round_float64 (1 / 10) = Finite (3602879701896397 / 36028797018963968)
    \<and> elems (avrSWAP self0) ! 60 = Finite 3
    \<and> discon_data self0 ! 2 = Finite (13421773 / 134217728)
    \<and> discon_data self0 ! 60 = Finite 3
    \<and> (ts ''t'' = Some t \<and> ts ''dt'' = Some dt \<and> valid_ts ts \<longrightarrow>
          avrSWAP (fst (call_controller s ts))
            = avrSWAP (call_discon (fst (exec (add_states ts) s)))
        \<and> discon_data (fst (exec (add_states ts) s)) ! 2 = to_float32 dt
        \<and> elems (avrSWAP (fst (call_controller s ts))) ! 2
            = (case swap_out (discon_call (fst (exec (add_states ts) s))) 2 of
                 None \<Rightarrow> to_float32 dt | Some v \<Rightarrow> v))
    \<and> (ts ''t'' = Some t \<and> ts ''dt'' = Some dt \<and> \<not> valid_ts ts \<longrightarrow>
          elems (avrSWAP (fst (call_controller s ts))) ! 2 = cast (dtype (avrSWAP s)) dt)
    \<and> (ts ''t'' = None \<longrightarrow> call_controller s ts = (s, Inl (KeyError ''t'')))
    \<and> (ts ''t'' = Some t \<and> ts ''dt'' = None \<longrightarrow>
          snd (call_controller s ts) = Inl (KeyError ''dt'')
        \<and> elems (avrSWAP (fst (call_controller s ts))) ! 2 = elems (avrSWAP s) ! 2)"
proof -
  from assms(1) obtain dp gb where
    a: "avrSWAP self0 = \<lparr>dtype = float64, elems = (replicate 500 (Finite 0))
           [2 := round_float64 (1 / 10), 60 := Finite 3,
            19 := fmul (fmul rpm rpm2RadSec) gb, 20 := fmul rpm rpm2RadSec,
            23 := yerr, 26 := ws, 36 := fmul yaw deg2rad, 0 := Finite 0,
            48 := Finite 500, 49 := float_of_int (int (length p)),
            50 := Finite 500, 51 := Finite 500]\<rparr>"
    by (rule init_setup_avrSWAP)
  have v: "elems (avrSWAP self0) ! 2 = Finite (3602879701896397 / 36028797018963968)"
    "elems (avrSWAP self0) ! 60 = Finite 3"
    by (simp_all add: a float64_tenth)
  have w: "discon_data self0 ! 2 = Finite (13421773 / 134217728)"
    "discon_data self0 ! 60 = Finite 3"
    by (simp_all add: nth_discon_data a float64_tenth float32_of_float64_tenth
        to_float32_3 [simplified])
  obtain s1 r where ex: "exec (add_states ts) s = (s1, r)"
    by (cases "exec (add_states ts) s") auto
  from add_states_slots [of s ts] ex assms(2)
  have l: "length (elems (avrSWAP s1)) = 500" and d: "dtype (avrSWAP s1) = dtype (avrSWAP s)"
    by (simp_all add: only_slots_def)
  have ok: "avrSWAP (fst (call_controller s ts))
            = avrSWAP (call_discon (fst (exec (add_states ts) s)))
        \<and> discon_data (fst (exec (add_states ts) s)) ! 2 = to_float32 dt
        \<and> elems (avrSWAP (fst (call_controller s ts))) ! 2
            = (case swap_out (discon_call (fst (exec (add_states ts) s))) 2 of
                 None \<Rightarrow> to_float32 dt | Some v \<Rightarrow> v)"
    if "ts ''t'' = Some t" "ts ''dt'' = Some dt" "valid_ts ts"
  proof -
    from valid_ts_exec [OF that(3) assms(2)] ex have s1: "exec (add_states ts) s = (s1, None)"
      by simp
    from exec_add_states_dt [OF that(1,2) assms(2)] ex
    have x: "elems (avrSWAP s1) ! 2 = cast (dtype (avrSWAP s)) dt" by simp
    have y: "discon_data s1 ! 2 = to_float32 dt"
      using l d x by (cases "dtype (avrSWAP s)") (simp_all add: nth_discon_data)
    from call_controller_ok [OF s1 assms(2)] l y s1 show ?thesis
      by (simp add: nth_call_discon split: option.splits)
  qed
  have bad: "elems (avrSWAP (fst (call_controller s ts))) ! 2 = cast (dtype (avrSWAP s)) dt"
    if "ts ''t'' = Some t" "ts ''dt'' = Some dt" "\<not> valid_ts ts"
  proof -
    from that(3) exec_valid_ts [of ts s] ex obtain e where "r = Some e"
      by (cases r) auto
    with ex have "exec (add_states ts) s = (s1, Some e)" by simp
    from call_controller_error [OF this] exec_add_states_dt [OF that(1,2) assms(2)] ex
    show ?thesis by simp
  qed
  have i1: "ts ''t'' = Some t \<and> ts ''dt'' = Some dt \<and> valid_ts ts \<longrightarrow>
          avrSWAP (fst (call_controller s ts))
            = avrSWAP (call_discon (fst (exec (add_states ts) s)))
        \<and> discon_data (fst (exec (add_states ts) s)) ! 2 = to_float32 dt
        \<and> elems (avrSWAP (fst (call_controller s ts))) ! 2
            = (case swap_out (discon_call (fst (exec (add_states ts) s))) 2 of
                 None \<Rightarrow> to_float32 dt | Some v \<Rightarrow> v)"
    using ok by blast
  have i2: "ts ''t'' = Some t \<and> ts ''dt'' = Some dt \<and> \<not> valid_ts ts \<longrightarrow>
          elems (avrSWAP (fst (call_controller s ts))) ! 2 = cast (dtype (avrSWAP s)) dt"
    using bad by blast
  have i3: "ts ''t'' = None \<longrightarrow> call_controller s ts = (s, Inl (KeyError ''t''))"
    using call_controller_no_t [where ts = ts and s = s] by blast
  have i4: "ts ''t'' = Some t \<and> ts ''dt'' = None \<longrightarrow>
          snd (call_controller s ts) = Inl (KeyError ''dt'')
        \<and> elems (avrSWAP (fst (call_controller s ts))) ! 2 = elems (avrSWAP s) ! 2"
    using call_controller_no_dt [where ts = ts and t = t and s = s] assms(2) by blast
  from v(1) float64_tenth v(2) w i1 i2 i3 i4 show ?thesis
    by - (intro conjI; assumption)
qed

theorem timestep_and_blade_slots_witness:
  "init_setup stub_read_DISCON (stub_LoadLibrary stub_idle) ''libdiscon.so'' ''DISCON.IN''
      (Finite 10) (Finite 4) (Finite 0) (Finite 0) = Inr (setup_default stub_idle)
   \<and> length (elems (avrSWAP (constructed stub_idle))) = 500
   \<and> ts_example ''t'' = Some (Finite 5) \<and> ts_example ''dt'' = Some (Finite (1 / 8))
   \<and> valid_ts ts_example
   \<and> elems (avrSWAP (setup_default stub_idle)) ! 60 = Finite 3
   \<and> elems (avrSWAP (fst (call_controller (constructed stub_idle) ts_example))) ! 2
       = Finite (1 / 8)
   \<and> ts_missing ''t'' = Some (Finite 5) \<and> ts_missing ''dt'' = Some (Finite (1 / 8))
   \<and> \<not> valid_ts ts_missing
   \<and> elems (avrSWAP (fst (call_controller (constructed stub_idle) ts_missing))) ! 2
       = Finite (1 / 8)
   \<and> ts_no_t ''t'' = None
   \<and> call_controller (constructed stub_idle) ts_no_t
       = (constructed stub_idle, Inl (KeyError ''t''))"
proof -
  have "ilog2 (1 / 8) = - 3"
    by (simp add: ilog2_def bit_length.simps)
  then have e: "round_float32 (1 / 8) = Finite (1 / 8)"
    unfolding round_float32_def round_binary_def Let_def
    by (simp add: pow2_def round_half_even_def Let_def)
  have n: "swap_out (discon_call (fst (exec (add_states ts_example) (constructed stub_idle)))) 2
      = None"
    using only_slots_fields(1) [OF add_states_slots [of "constructed stub_idle" ts_example]]
    by (simp add: discon_call_def stub_idle_def)
  have m: "ts_missing ''t'' = Some (Finite 5)" "ts_missing ''dt'' = Some (Finite (1 / 8))"
    by (simp_all add: ts_missing_def ts_example_def)
  have nt: "ts_no_t ''t'' = None" by (simp add: ts_no_t_def)
  note su = setup_default_eq [of stub_idle]
  note cl = constructed_length [of stub_idle]
  note th1 = timestep_and_blade_slots [OF su cl, of ts_example "Finite 5" "Finite (1 / 8)"]
  from th1 have a1: "elems (avrSWAP (setup_default stub_idle)) ! 60 = Finite 3"
    by blast
  from th1 ts_example_fields(1,2) valid_ts_example
  have "elems (avrSWAP (fst (call_controller (constructed stub_idle) ts_example))) ! 2
      = (case swap_out (discon_call (fst (exec (add_states ts_example)
            (constructed stub_idle)))) 2 of
           None \<Rightarrow> to_float32 (Finite (1 / 8)) | Some v \<Rightarrow> v)"
    by blast
  with n have a2: "elems (avrSWAP (fst (call_controller (constructed stub_idle) ts_example))) ! 2
       = Finite (1 / 8)"
    by (simp add: e)
  note th2 = timestep_and_blade_slots [OF su cl, of ts_missing "Finite 5" "Finite (1 / 8)"]
  from th2 m not_valid_ts_missing
  have "elems (avrSWAP (fst (call_controller (constructed stub_idle) ts_missing))) ! 2
       = cast (dtype (avrSWAP (constructed stub_idle))) (Finite (1 / 8))"
    by blast
  then have b: "elems (avrSWAP (fst (call_controller (constructed stub_idle) ts_missing))) ! 2
       = Finite (1 / 8)"
    by (simp add: e)
  from timestep_and_blade_slots [OF su cl, of ts_no_t] nt
  have c: "call_controller (constructed stub_idle) ts_no_t
       = (constructed stub_idle, Inl (KeyError ''t''))"
    by blast
  from a1 a2 b c su m nt show ?thesis
    by (simp add: ts_example_fields valid_ts_example not_valid_ts_missing)
qed

end
